theory Spec2Isabelle
  imports Complex_Main
begin

section \<open>Numbers and vectors (engine/Physics.js)\<close>

text \<open>
  JavaScript numbers are modelled as mathematical reals: rounding of IEEE doubles, NaN and
  the infinities are outside the model. A field that the constructor never assigns
  (it reads as \<open>undefined\<close> in JavaScript) is an \<open>option\<close> with value \<open>None\<close>.
  Every call of \<open>Math.random()\<close> is an explicit argument: a function \<open>rnd\<close> that gives
  the value of the n-th call, in call order.
\<close>

record Vec2 =
  x :: real
  y :: real

definition addV :: "Vec2 \<Rightarrow> Vec2 \<Rightarrow> Vec2" where
  "addV a b = \<lparr>x = x a + x b, y = y a + y b\<rparr>"

definition subV :: "Vec2 \<Rightarrow> Vec2 \<Rightarrow> Vec2" where
  "subV a b = \<lparr>x = x a - x b, y = y a - y b\<rparr>"

definition scaleV :: "Vec2 \<Rightarrow> real \<Rightarrow> Vec2" where
  "scaleV a s = \<lparr>x = x a * s, y = y a * s\<rparr>"

definition lengthSq :: "Vec2 \<Rightarrow> real" where
  "lengthSq a = x a * x a + y a * y a"

definition lengthV :: "Vec2 \<Rightarrow> real" where
  "lengthV a = sqrt (x a * x a + y a * y a)"

definition normalizeV :: "Vec2 \<Rightarrow> Vec2" where
  "normalizeV a =
     (let len = lengthV a in
      if len = 0 then \<lparr>x = 0, y = 0\<rparr> else \<lparr>x = x a / len, y = y a / len\<rparr>)"

definition distTo :: "Vec2 \<Rightarrow> Vec2 \<Rightarrow> real" where
  "distTo a b = lengthV (subV a b)"

text \<open>The position of any entity, as \<open>new Vec2(e.x, e.y)\<close> builds it.\<close>

definition posOf :: "'a Vec2_scheme \<Rightarrow> Vec2" where
  "posOf e = \<lparr>x = x e, y = y e\<rparr>"

text \<open>\<open>Math.atan2(y, x)\<close> on reals (signed zeros are outside the model).\<close>

definition atan2 :: "real \<Rightarrow> real \<Rightarrow> real" where
  "atan2 b a =
     (if a > 0 then arctan (b / a)
      else if a < 0 then (if b \<ge> 0 then arctan (b / a) + pi else arctan (b / a) - pi)
      else if b > 0 then pi / 2
      else if b < 0 then - (pi / 2)
      else 0)"

text \<open>\<open>Math.round\<close>: the nearest integer, a tie going up.\<close>

definition js_round :: "real \<Rightarrow> real" where
  "js_round v = of_int \<lfloor>v + 1 / 2\<rfloor>"

section \<open>Entities\<close>

record circle = Vec2 +
  radius :: real

record planet = circle +
  mass :: real
  themeKey :: string
  gravityRange :: real

record mover = circle +
  vx :: real
  vy :: real

text \<open>
  Player.js. The constructor assigns neither \<open>jumpGraceTimer\<close> (written by
  GravitySystem.jump) nor \<open>currentWeapon\<close> (written when a weapon pickup is taken).
\<close>

record player = mover +
  playerId :: string
  index :: int
  name :: string
  color :: string
  isGrounded :: bool
  groundedPlanetIndex :: int
  surfaceAngle :: real
  moveX :: real
  facingLeft :: bool
  aimAngle :: real
  health :: real
  maxHealth :: real
  alive :: bool
  kills :: int
  deaths :: int
  shotsFired :: int
  shotsHit :: int
  damageDealt :: real
  shootCooldown :: real
  shootCooldownMax :: real
  damageFlash :: real
  respawnTimer :: real
  respawnTime :: real
  invulnerable :: real
  jumpForce :: real
  canJump :: bool
  jumpCooldown :: real
  moveSpeed :: real
  airControl :: real
  jumpGraceTimer :: "real option"
  currentWeapon :: "string option"

text \<open>Fields shared by the two short-lived hostile bodies.\<close>

record shot = mover +
  active :: bool
  lifetime :: real
  age :: real
  damage :: real

record projectile = shot +
  ownerId :: string
  projColor :: string

record meteorite = shot +
  rotation :: real
  rotationSpeed :: real
  shape :: "real list"

record pickup = circle +
  pickupId :: string
  typeKey :: string
  pickupActive :: bool
  time :: real
  baseX :: real
  baseY :: real
  pickupSurfaceAngle :: real

subsection \<open>Player methods\<close>

definition PLAYER_COLORS :: "string list" where
  "PLAYER_COLORS = [''#00d4ff'', ''#ff6b35'', ''#00ff88'', ''#ff3366'']"

definition PLAYER_NAMES_DEFAULT :: "string list" where
  "PLAYER_NAMES_DEFAULT = [''Player 1'', ''Player 2'', ''Player 3'', ''Player 4'']"

text \<open>Decimal text of an integer, for the template string of the fallback name.\<close>

fun showNat :: "nat \<Rightarrow> string" where
  "showNat n =
     (if n < 10 then [char_of (48 + n)] else showNat (n div 10) @ [char_of (48 + n mod 10)])"

definition showInt :: "int \<Rightarrow> string" where
  "showInt k = (if k < 0 then CHR ''-'' # showNat (nat (- k)) else showNat (nat k))"

text \<open>
  \<open>new Player(id, playerIndex)\<close>. Beyond the four listed indices the constructor falls
  back to the name \<open>Player (playerIndex + 1)\<close> and to white.
\<close>

definition newPlayer :: "string \<Rightarrow> int \<Rightarrow> player" where
  "newPlayer i k =
     \<lparr>x = 0, y = 0, radius = 12, vx = 0, vy = 0,
      playerId = i, index = k,
      name = (if 0 \<le> k \<and> k < 4 then PLAYER_NAMES_DEFAULT ! nat k
              else ''Player '' @ showInt (k + 1)),
      color = (if 0 \<le> k \<and> k < 4 then PLAYER_COLORS ! nat k else ''#ffffff''),
      isGrounded = False, groundedPlanetIndex = - 1, surfaceAngle = 0, moveX = 0,
      facingLeft = False, aimAngle = 0,
      health = 100, maxHealth = 100, alive = True, kills = 0, deaths = 0,
      shotsFired = 0, shotsHit = 0, damageDealt = 0,
      shootCooldown = 0, shootCooldownMax = 0.6, damageFlash = 0, respawnTimer = 0,
      respawnTime = 3, invulnerable = 0,
      jumpForce = 300, canJump = True, jumpCooldown = 0,
      moveSpeed = 200, airControl = 80,
      jumpGraceTimer = None, currentWeapon = None\<rparr>"

text \<open>\<open>takeDamage(amount, attackerId)\<close>: the returned flag is "died".\<close>

definition takeDamage :: "real \<Rightarrow> player \<Rightarrow> bool \<times> player" where
  "takeDamage amount p =
     (if \<not> alive p \<or> invulnerable p > 0 then (False, p)
      else
        let p1 = p\<lparr>health := health p - amount, damageFlash := 0.5\<rparr> in
        if health p1 \<le> 0
        then (True, p1\<lparr>health := 0, alive := False, deaths := deaths p1 + 1,
                        respawnTimer := respawnTime p1\<rparr>)
        else (False, p1))"

definition updateTimers :: "real \<Rightarrow> player \<Rightarrow> player" where
  "updateTimers dt p =
     (let p1 = (if shootCooldown p > 0 then p\<lparr>shootCooldown := shootCooldown p - dt\<rparr> else p);
          p2 = (if damageFlash p1 > 0 then p1\<lparr>damageFlash := damageFlash p1 - dt * 3\<rparr> else p1);
          p3 = (if jumpCooldown p2 > 0 then p2\<lparr>jumpCooldown := jumpCooldown p2 - dt\<rparr> else p2);
          p4 = (if invulnerable p3 > 0 then p3\<lparr>invulnerable := invulnerable p3 - dt\<rparr> else p3)
      in if \<not> alive p4 \<and> respawnTimer p4 > 0
         then p4\<lparr>respawnTimer := respawnTimer p4 - dt\<rparr> else p4)"

definition canShoot :: "player \<Rightarrow> bool" where
  "canShoot p = (alive p \<and> shootCooldown p \<le> 0)"

text \<open>\<open>spawn(planet, angle)\<close> is given after the planet's methods.\<close>

subsection \<open>Planet (entities/Planet.js)\<close>

text \<open>
  The theme key is always passed by map generation; the decorative surface details and the
  colour table play no part in the simulation and are left out.
\<close>

definition newPlanet :: "real \<Rightarrow> real \<Rightarrow> real \<Rightarrow> string \<Rightarrow> planet" where
  "newPlanet px py r key =
     \<lparr>x = px, y = py, radius = r, mass = r * 1.5, themeKey = key, gravityRange = r * 5\<rparr>"

definition isInside :: "planet \<Rightarrow> real \<Rightarrow> real \<Rightarrow> bool" where
  "isInside pl px py = (sqrt ((px - x pl)\<^sup>2 + (py - y pl)\<^sup>2) < radius pl)"

definition getSurfacePoint :: "planet \<Rightarrow> real \<Rightarrow> Vec2" where
  "getSurfacePoint pl angle =
     \<lparr>x = x pl + cos angle * (radius pl + 2), y = y pl + sin angle * (radius pl + 2)\<rparr>"

definition spawn :: "planet \<Rightarrow> real \<Rightarrow> player \<Rightarrow> player" where
  "spawn pl angle p =
     (let surfPos = getSurfacePoint pl angle in
      p\<lparr>x := x surfPos, y := y surfPos, vx := 0, vy := 0, isGrounded := True,
        surfaceAngle := angle, health := maxHealth p, alive := True, damageFlash := 0,
        invulnerable := 2, respawnTimer := 0\<rparr>)"

section \<open>Physics (engine/Physics.js)\<close>

definition GRAVITY_CONSTANT :: real where
  "GRAVITY_CONSTANT = 2200"

definition MAX_VELOCITY :: real where
  "MAX_VELOCITY = 800"

definition SURFACE_OFFSET :: real where
  "SURFACE_OFFSET = 2"

definition gravityAccel :: "Vec2 \<Rightarrow> planet \<Rightarrow> Vec2" where
  "gravityAccel entityPos pl =
     (let diff = \<lparr>x = x pl - x entityPos, y = y pl - y entityPos\<rparr>;
          distSq = lengthSq diff;
          dist = sqrt distSq
      in if dist < radius pl * 0.5 then \<lparr>x = 0, y = 0\<rparr>
         else
           let force = (GRAVITY_CONSTANT * mass pl) / distSq
           in scaleV (normalizeV diff) (min force 3500))"

text \<open>
  \<open>nearestPlanet\<close>: the accumulator \<open>None\<close> stands for \<open>{planet: null, distance: Infinity}\<close>,
  below which every distance lies.
\<close>

fun nearestPlanetFrom ::
  "Vec2 \<Rightarrow> planet list \<Rightarrow> (planet \<times> real) option \<Rightarrow> (planet \<times> real) option" where
  "nearestPlanetFrom pos [] acc = acc"
| "nearestPlanetFrom pos (pl # pls) acc =
     (let d = distTo pos (posOf pl) - radius pl
      in nearestPlanetFrom pos pls
           (case acc of
              None \<Rightarrow> Some (pl, d)
            | Some (n, minDist) \<Rightarrow> if d < minDist then Some (pl, d) else acc))"

definition nearestPlanet :: "Vec2 \<Rightarrow> planet list \<Rightarrow> (planet \<times> real) option" where
  "nearestPlanet pos planets = nearestPlanetFrom pos planets None"

definition projectToSurface :: "Vec2 \<Rightarrow> planet \<Rightarrow> Vec2" where
  "projectToSurface pos pl =
     (let dir = normalizeV (subV pos (posOf pl))
      in addV (posOf pl) (scaleV dir (radius pl + SURFACE_OFFSET)))"

definition Physics_surfaceAngle :: "Vec2 \<Rightarrow> planet \<Rightarrow> real" where
  "Physics_surfaceAngle pos pl = atan2 (y pos - y pl) (x pos - x pl)"

definition circleCollision :: "real \<Rightarrow> real \<Rightarrow> real \<Rightarrow> real \<Rightarrow> real \<Rightarrow> real \<Rightarrow> bool" where
  "circleCollision x1 y1 r1 x2 y2 r2 =
     (let dx = x2 - x1; dy = y2 - y1;
          distSq = dx * dx + dy * dy;
          sumR = r1 + r2
      in distSq \<le> sumR * sumR)"

definition clampVelocity :: "Vec2 \<Rightarrow> Vec2" where
  "clampVelocity vel =
     (let len = lengthV vel
      in if len > MAX_VELOCITY then scaleV (normalizeV vel) MAX_VELOCITY else vel)"

definition lerp :: "real \<Rightarrow> real \<Rightarrow> real \<Rightarrow> real" where
  "lerp a b t = a + (b - a) * t"

section \<open>GravitySystem (the rewritten systems/GravitySystem.js)\<close>

definition surfaceThreshold :: real where
  "surfaceThreshold = 8"

definition surfaceFriction :: real where
  "surfaceFriction = 0.85"

text \<open>The sum that \<open>applyGravity\<close> accumulates over the planets in range.\<close>

definition totalAccel :: "Vec2 \<Rightarrow> planet list \<Rightarrow> Vec2" where
  "totalAccel pos planets =
     fold (\<lambda>pl acc. if distTo pos (posOf pl) < gravityRange pl
                     then addV acc (gravityAccel pos pl) else acc)
          planets \<lparr>x = 0, y = 0\<rparr>"

text \<open>
  \<open>const canLand = player.jumpGraceTimer <= 0\<close>: a comparison with \<open>undefined\<close> is false.
\<close>

definition canLand :: "player \<Rightarrow> bool" where
  "canLand p = (case jumpGraceTimer p of None \<Rightarrow> False | Some g \<Rightarrow> g \<le> 0)"

text \<open>
  The two branches of \<open>_handlePlayerGravity\<close>, each under its own name. The grounded
  branch draws at most one random number (lava burn or forest healing).
\<close>

definition groundedStep :: "(nat \<Rightarrow> real) \<Rightarrow> player \<Rightarrow> planet \<Rightarrow> real \<Rightarrow> player" where
  "groundedStep rnd p np dt =
     (let surfPoint = projectToSurface (posOf p) np;
          p1 = p\<lparr>x := x surfPoint, y := y surfPoint\<rparr>;
          p2 = p1\<lparr>surfaceAngle := Physics_surfaceAngle (posOf p1) np\<rparr>;
          currentMoveSpeed =
            (if themeKey np = ''ice'' then moveSpeed p2
             else if themeKey np = ''desert'' then moveSpeed p2 * 0.6 else moveSpeed p2);
          currentFriction = (if themeKey np = ''ice'' then 0.98 else surfaceFriction);
          p3 = (if themeKey np = ''ice'' then p2
                else if themeKey np = ''desert'' then p2
                else if themeKey np = ''lava''
                  then (if rnd 0 < dt * 5 then snd (takeDamage 1 p2) else p2)
                else if themeKey np = ''forest''
                  then (if health p2 < maxHealth p2 \<and> rnd 0 < dt * 5
                        then p2\<lparr>health := health p2 + 1\<rparr> else p2)
                else p2);
          p4 = (if \<bar>moveX p3\<bar> > 0.1
                then
                  let moveDir = (if moveX p3 > 0 then 1 else - 1);
                      angularSpeed = (currentMoveSpeed / radius np) * dt;
                      sa = surfaceAngle p3 + angularSpeed * moveDir;
                      newPos = getSurfacePoint np sa
                  in p3\<lparr>surfaceAngle := sa, x := x newPos, y := y newPos,
                         facingLeft := (moveDir < 0)\<rparr>
                else p3)
      in p4\<lparr>vx := vx p4 * currentFriction, vy := vy p4 * currentFriction\<rparr>)"

definition airborneStep :: "player \<Rightarrow> planet \<Rightarrow> Vec2 \<Rightarrow> bool \<Rightarrow> real \<Rightarrow> player" where
  "airborneStep p np accel mayLand dt =
     (let p1 = p\<lparr>vx := vx p + x accel * dt, vy := vy p + y accel * dt\<rparr>;
          p2 = p1\<lparr>x := x p1 + vx p1 * dt, y := y p1 + vy p1 * dt\<rparr>;
          p3 = (if \<bar>moveX p2\<bar> > 0.1
                then p2\<lparr>vx := vx p2 + moveX p2 * airControl p2 * dt,
                        facingLeft := (moveX p2 < 0)\<rparr>
                else p2);
          p4 = p3\<lparr>surfaceAngle := Physics_surfaceAngle (posOf p3) np\<rparr>;
          vel = clampVelocity \<lparr>x = vx p4, y = vy p4\<rparr>;
          p5 = p4\<lparr>vx := x vel, vy := y vel\<rparr>
      in if mayLand \<and> isInside np (x p5) (y p5)
         then
           let surfPoint = projectToSurface (posOf p5) np
           in p5\<lparr>x := x surfPoint, y := y surfPoint, isGrounded := True,
                  vx := vx p5 * 0.2, vy := vy p5 * 0.2\<rparr>
         else p5)"

definition handlePlayerGravity ::
  "(nat \<Rightarrow> real) \<Rightarrow> player \<Rightarrow> (planet \<times> real) option \<Rightarrow> Vec2 \<Rightarrow> real \<Rightarrow> player" where
  "handlePlayerGravity rnd p nearest accel dt =
     (case nearest of
        None \<Rightarrow> p
      | Some (np, nearestDist) \<Rightarrow>
          let mayLand = canLand p;
              onSurface = (nearestDist \<le> surfaceThreshold);
              p1 = (if onSurface \<and> \<not> isGrounded p \<and> mayLand
                    then p\<lparr>isGrounded := True, groundedPlanetIndex := - 1,
                           vx := vx p * 0.3, vy := vy p * 0.3\<rparr>
                    else p)
          in if isGrounded p1 then groundedStep rnd p1 np dt
             else airborneStep p1 np accel mayLand dt)"

text \<open>
  \<open>applyGravity\<close> tells a player from the other entities by the presence of
  \<open>isGrounded\<close>; the model has one function for each side of that test.
\<close>

definition applyGravityPlayer :: "(nat \<Rightarrow> real) \<Rightarrow> planet list \<Rightarrow> real \<Rightarrow> player \<Rightarrow> player" where
  "applyGravityPlayer rnd planets dt p =
     handlePlayerGravity rnd p (nearestPlanet (posOf p) planets)
       (totalAccel (posOf p) planets) dt"

definition applyGravitySimple :: "planet list \<Rightarrow> real \<Rightarrow> 'a mover_scheme \<Rightarrow> 'a mover_scheme" where
  "applyGravitySimple planets dt e =
     (let a = totalAccel (posOf e) planets
      in e\<lparr>vx := vx e + x a * dt, vy := vy e + y a * dt\<rparr>)"

definition jump :: "player \<Rightarrow> planet \<Rightarrow> bool \<times> player" where
  "jump p np =
     (if \<not> isGrounded p then (False, p)
      else if \<not> canJump p then (False, p)
      else
        let jumpDir = normalizeV \<lparr>x = x p - x np, y = y p - y np\<rparr>;
            jumpMultiplier = (if themeKey np = ''crystal'' then 1.5 else 1.0);
            p1 = p\<lparr>vx := x jumpDir * jumpForce p * jumpMultiplier,
                   vy := y jumpDir * jumpForce p * jumpMultiplier,
                   isGrounded := False,
                   jumpGraceTimer := Some 0.35\<rparr>
        in (True, p1\<lparr>x := x p1 + x jumpDir * (surfaceThreshold + 4),
                      y := y p1 + y jumpDir * (surfaceThreshold + 4)\<rparr>))"


section \<open>Projectile and Meteorite (entities)\<close>

definition newProjectile ::
  "real \<Rightarrow> real \<Rightarrow> real \<Rightarrow> real \<Rightarrow> string \<Rightarrow> string \<Rightarrow> projectile" where
  "newProjectile px py pvx pvy owner col =
     \<lparr>x = px, y = py, radius = 3, vx = pvx, vy = pvy,
      active = True, lifetime = 3, age = 0, damage = 20,
      ownerId = owner, projColor = col\<rparr>"

definition updateProjectile :: "real \<Rightarrow> projectile \<Rightarrow> projectile" where
  "updateProjectile dt pr =
     (let p1 = pr\<lparr>x := x pr + vx pr * dt, y := y pr + vy pr * dt, age := age pr + dt\<rparr>
      in if age p1 \<ge> lifetime p1 then p1\<lparr>active := False\<rparr> else p1)"

text \<open>
  \<open>new Meteorite(x, y, vx, vy, radius)\<close> draws, in this order: the rotation, the
  rotation speed, the number of shape points, and one scale factor for each point.
\<close>

definition newMeteorite ::
  "(nat \<Rightarrow> real) \<Rightarrow> real \<Rightarrow> real \<Rightarrow> real \<Rightarrow> real \<Rightarrow> real \<Rightarrow> meteorite" where
  "newMeteorite rnd mx my mvx mvy r =
     (let points = nat (8 + \<lfloor>rnd 2 * 4\<rfloor>)
      in \<lparr>x = mx, y = my, radius = r, vx = mvx, vy = mvy,
          active = True, lifetime = 10, age = 0, damage = 50,
          rotation = rnd 0 * pi * 2,
          rotationSpeed = (rnd 1 - 0.5) * 4,
          shape = map (\<lambda>i. 0.7 + rnd (3 + i) * 0.5) [0..<points]\<rparr>)"

definition updateMeteorite :: "real \<Rightarrow> meteorite \<Rightarrow> meteorite" where
  "updateMeteorite dt m =
     (let m1 = m\<lparr>x := x m + vx m * dt, y := y m + vy m * dt,
                 rotation := rotation m + rotationSpeed m * dt, age := age m + dt\<rparr>
      in if age m1 \<ge> lifetime m1 then m1\<lparr>active := False\<rparr> else m1)"

section \<open>The host tick (main.js, Game._updateHost)\<close>

text \<open>
  Steps of one fixed tick for a single entity. For an alive player: the gravity update,
  then the timers. For an active projectile and an active meteorite: the loop over the
  planets that adds each in-range pull to the velocity, then the entity's own \<open>update\<close>.
\<close>

definition hostPlayerTick :: "(nat \<Rightarrow> real) \<Rightarrow> planet list \<Rightarrow> real \<Rightarrow> player \<Rightarrow> player" where
  "hostPlayerTick rnd planets dt p =
     updateTimers dt (if alive p then applyGravityPlayer rnd planets dt p else p)"

definition hostProjectileGravity :: "planet list \<Rightarrow> real \<Rightarrow> projectile \<Rightarrow> projectile" where
  "hostProjectileGravity planets dt proj =
     fold (\<lambda>pl pr.
             if distTo (posOf pr) (posOf pl) < gravityRange pl
             then let accel = gravityAccel (posOf pr) pl
                  in pr\<lparr>vx := vx pr + x accel * dt, vy := vy pr + y accel * dt\<rparr>
             else pr)
          planets proj"

definition hostProjectileTick :: "planet list \<Rightarrow> real \<Rightarrow> projectile \<Rightarrow> projectile" where
  "hostProjectileTick planets dt proj =
     (if \<not> active proj then proj
      else updateProjectile dt (hostProjectileGravity planets dt proj))"

definition hostMeteoriteGravity :: "planet list \<Rightarrow> real \<Rightarrow> meteorite \<Rightarrow> meteorite" where
  "hostMeteoriteGravity planets dt met =
     fold (\<lambda>pl m.
             if distTo (posOf m) (posOf pl) < gravityRange pl
             then let accel = gravityAccel (posOf m) pl
                  in m\<lparr>vx := vx m + x accel * dt * 0.5, vy := vy m + y accel * dt * 0.5\<rparr>
             else m)
          planets met"

definition hostMeteoriteTick :: "planet list \<Rightarrow> real \<Rightarrow> meteorite \<Rightarrow> meteorite" where
  "hostMeteoriteTick planets dt met =
     (if \<not> active met then met
      else updateMeteorite dt (hostMeteoriteGravity planets dt met))"

section \<open>CollisionSystem (systems/CollisionSystem.js)\<close>

text \<open>
  The events of \<open>update\<close>, in the order of their fields in the source:
  \<open>Kill killerId victimId killerName victimName\<close> (the killer's name is absent when no
  player has the killer's id), \<open>Hit targetId damage\<close>, \<open>MeteoriteImpact x y\<close>.
  The particle sink only draws; it is left out.
\<close>

datatype event =
  Kill string string "string option" string
| Hit string real
| MeteoriteImpact real real

text \<open>
  The position of the first element that satisfies a test: what a \<open>for\<close> loop that
  breaks at its first match visits last, and what \<open>Array.find\<close> returns a reference to.
\<close>

fun firstIndex :: "('a \<Rightarrow> bool) \<Rightarrow> 'a list \<Rightarrow> nat option" where
  "firstIndex P [] = None"
| "firstIndex P (a # as) = (if P a then Some 0 else map_option Suc (firstIndex P as))"

text \<open>The three \<open>continue\<close> guards and the overlap test of the projectile loop.\<close>

definition hitTest :: "projectile \<Rightarrow> player \<Rightarrow> bool" where
  "hitTest proj p =
     (alive p \<and> playerId p \<noteq> ownerId proj \<and> \<not> invulnerable p > 0
      \<and> circleCollision (x proj) (y proj) (radius proj) (x p) (y p) (radius p + 4))"

text \<open>
  What the hit branch writes to the attacker, the player that \<open>players.find\<close> returns
  for the owner's id: the hit statistics, and the kill count when the target died.
  \<open>creditAt\<close> is the guarded write \<open>if (attacker) ...\<close> on the player list.
\<close>

definition creditHit :: "real \<Rightarrow> player \<Rightarrow> player" where
  "creditHit dmg q = q\<lparr>shotsHit := shotsHit q + 1, damageDealt := damageDealt q + dmg\<rparr>"

definition creditKill :: "player \<Rightarrow> player" where
  "creditKill q = q\<lparr>kills := kills q + 1\<rparr>"

definition creditAt :: "(player \<Rightarrow> player) \<Rightarrow> nat option \<Rightarrow> player list \<Rightarrow> player list" where
  "creditAt f attacker ps = (case attacker of None \<Rightarrow> ps | Some j \<Rightarrow> ps[j := f (ps ! j)])"

text \<open>The inner loop of the first phase, for one active projectile.\<close>

definition resolveProjectile ::
  "projectile \<Rightarrow> player list \<Rightarrow> player list \<times> projectile \<times> event list" where
  "resolveProjectile proj players =
     (case firstIndex (hitTest proj) players of
        None \<Rightarrow> (players, proj, [])
      | Some i \<Rightarrow>
          let (died, target) = takeDamage (damage proj) (players ! i);
              players1 = players[i := target];
              proj1 = proj\<lparr>active := False\<rparr>;
              attacker = firstIndex (\<lambda>q. playerId q = ownerId proj) players1;
              players2 = creditAt (creditHit (damage proj)) attacker players1
          in if died
             then
               (creditAt creditKill attacker players2,
                proj1,
                [Kill (ownerId proj) (playerId target)
                   (map_option (\<lambda>j. name (players2 ! j)) attacker) (name target)])
             else (players2, proj1, [Hit (playerId target) (damage proj)]))"

text \<open>
  The first phase visits the projectiles from the last index down to the first: the
  recursion resolves the tail of the list before its head.
\<close>

fun projectilesVsPlayers ::
  "projectile list \<Rightarrow> player list \<Rightarrow> projectile list \<times> player list \<times> event list" where
  "projectilesVsPlayers [] players = ([], players, [])"
| "projectilesVsPlayers (proj # rest) players =
     (let (rest1, players1, ev1) = projectilesVsPlayers rest players
      in if \<not> active proj then (proj # rest1, players1, ev1)
         else
           let (players2, proj1, ev2) = resolveProjectile proj players1
           in (proj1 # rest1, players2, ev1 @ ev2))"

definition projectilesVsPlanets :: "projectile list \<Rightarrow> planet list \<Rightarrow> projectile list" where
  "projectilesVsPlanets projs planets =
     map (\<lambda>proj. if active proj \<and> list_ex (\<lambda>pl. isInside pl (x proj) (y proj)) planets
                  then proj\<lparr>active := False\<rparr> else proj)
         projs"

text \<open>
  The killer name of a meteorite kill: a comet sign (U+2604, U+FE0F, here as the bytes
  of their UTF-8 form), a space and the word Meteorite.
\<close>

definition meteoriteKillerName :: string where
  "meteoriteKillerName =
     [char_of (0xE2 :: nat), char_of (0x98 :: nat), char_of (0x84 :: nat),
      char_of (0xEF :: nat), char_of (0xB8 :: nat), char_of (0x8F :: nat)] @ '' Meteorite''"

text \<open>The inner loop of the third phase, for one active meteorite: no \<open>break\<close>.\<close>

fun meteoriteVsPlayers :: "meteorite \<Rightarrow> player list \<Rightarrow> player list \<times> event list" where
  "meteoriteVsPlayers met [] = ([], [])"
| "meteoriteVsPlayers met (p # ps) =
     (let (p1, ev1) =
            (if \<not> alive p \<or> invulnerable p > 0 then (p, [])
             else if circleCollision (x met) (y met) (radius met) (x p) (y p) (radius p + 2)
             then
               let (died, q) = takeDamage (damage met) p
               in (q, if died
                      then [Kill ''__meteorite'' (playerId q) (Some meteoriteKillerName) (name q)]
                      else [])
             else (p, []));
          (ps1, ev2) = meteoriteVsPlayers met ps
      in (p1 # ps1, ev1 @ ev2))"

fun meteoritesVsPlayers :: "meteorite list \<Rightarrow> player list \<Rightarrow> player list \<times> event list" where
  "meteoritesVsPlayers [] players = (players, [])"
| "meteoritesVsPlayers (met # mets) players =
     (if \<not> active met then meteoritesVsPlayers mets players
      else
        let (players1, ev1) = meteoriteVsPlayers met players;
            (players2, ev2) = meteoritesVsPlayers mets players1
        in (players2, ev1 @ ev2))"

definition hitsPlanet :: "meteorite \<Rightarrow> planet list \<Rightarrow> bool" where
  "hitsPlanet met planets =
     list_ex (\<lambda>pl. circleCollision (x met) (y met) (radius met * 0.5) (x pl) (y pl) (radius pl))
             planets"

text \<open>The fourth phase runs from the last index down: its events come in that order.\<close>

definition meteoritesVsPlanets ::
  "meteorite list \<Rightarrow> planet list \<Rightarrow> meteorite list \<times> event list" where
  "meteoritesVsPlanets mets planets =
     (map (\<lambda>met. if active met \<and> hitsPlanet met planets then met\<lparr>active := False\<rparr> else met) mets,
      map (\<lambda>met. MeteoriteImpact (x met) (y met))
          (filter (\<lambda>met. active met \<and> hitsPlanet met planets) (rev mets)))"

text \<open>
  \<open>update(players, projectiles, meteorites, planets, particles)\<close>: the events, and the
  three collections as the call leaves them.
\<close>

definition collisionUpdate ::
  "player list \<Rightarrow> projectile list \<Rightarrow> meteorite list \<Rightarrow> planet list
   \<Rightarrow> event list \<times> player list \<times> projectile list \<times> meteorite list" where
  "collisionUpdate players projs mets planets =
     (let (projs1, players1, ev1) = projectilesVsPlayers projs players;
          projs2 = projectilesVsPlanets projs1 planets;
          (players2, ev3) = meteoritesVsPlayers mets players1;
          (mets1, ev4) = meteoritesVsPlanets mets planets
      in (ev1 @ ev3 @ ev4, players2, filter active projs2, filter active mets1))"

section \<open>HazardSystem (systems/HazardSystem.js)\<close>

record hazardSystem =
  spawnTimer :: real
  baseInterval :: real
  minInterval :: real
  escalationRate :: real
  gameTime :: real
  showerTimer :: real
  showerInterval :: real
  showerActive :: bool
  showerDuration :: real
  showerElapsed :: real
  mapRadius :: real

definition newHazardSystem :: hazardSystem where
  "newHazardSystem =
     \<lparr>spawnTimer = 0, baseInterval = 4, minInterval = 1, escalationRate = 0.05,
      gameTime = 0, showerTimer = 0, showerInterval = 30, showerActive = False,
      showerDuration = 5, showerElapsed = 0, mapRadius = 700\<rparr>"

text \<open>
  \<open>_spawnMeteorite\<close> draws the angle, the aim jitter, the speed and the radius, and then
  the constructor of the meteorite draws its own numbers.
\<close>

definition spawnMeteorite :: "(nat \<Rightarrow> real) \<Rightarrow> hazardSystem \<Rightarrow> meteorite list \<Rightarrow> meteorite list" where
  "spawnMeteorite rnd hs mets =
     (if length mets > 15 then mets
      else
        let angle = rnd 0 * pi * 2;
            spawnDist = mapRadius hs + 100;
            sx = cos angle * spawnDist;
            sy = sin angle * spawnDist;
            targetAngle = angle + pi + (rnd 1 - 0.5) * 0.8;
            speed = 100 + rnd 2 * 150;
            svx = cos targetAngle * speed;
            svy = sin targetAngle * speed;
            r = 10 + rnd 3 * 15
        in mets @ [newMeteorite (\<lambda>n. rnd (n + 4)) sx sy svx svy r])"

definition hazardUpdate ::
  "(nat \<Rightarrow> real) \<Rightarrow> real \<Rightarrow> meteorite list \<Rightarrow> hazardSystem \<Rightarrow> hazardSystem \<times> meteorite list" where
  "hazardUpdate rnd dt mets hs =
     (let h1 = hs\<lparr>gameTime := gameTime hs + dt, spawnTimer := spawnTimer hs - dt,
                  showerTimer := showerTimer hs + dt\<rparr>;
          interval = max (minInterval h1) (baseInterval h1 - gameTime h1 * escalationRate h1);
          h2 = (if showerTimer h1 \<ge> showerInterval h1
                then h1\<lparr>showerActive := True, showerElapsed := 0, showerTimer := 0\<rparr> else h1);
          h3 = (if showerActive h2
                then
                  let h = h2\<lparr>showerElapsed := showerElapsed h2 + dt\<rparr>
                  in if showerElapsed h \<ge> showerDuration h then h\<lparr>showerActive := False\<rparr> else h
                else h2);
          effectiveInterval = (if showerActive h3 then 0.3 else interval)
      in if spawnTimer h3 \<le> 0
         then (h3\<lparr>spawnTimer := effectiveInterval\<rparr>,
               spawnMeteorite rnd (h3\<lparr>spawnTimer := effectiveInterval\<rparr>) mets)
         else (h3, mets))"

section \<open>WeaponSystem (the weapon-profile revision of systems/WeaponSystem.js)\<close>

record weaponSystem =
  pelletCount :: nat
  spreadAngle :: real
  pelletSpeed :: real
  muzzleOffset :: real

definition newWeaponSystem :: weaponSystem where
  "newWeaponSystem = \<lparr>pelletCount = 7, spreadAngle = pi / 4, pelletSpeed = 1200, muzzleOffset = 30\<rparr>"

text \<open>
  The resolved profile: pellet count, spread, speed, colour, damage, radius, lifetime,
  recoil, and the cooldown that the branch writes to \<open>shootCooldownMax\<close>.
\<close>

record weaponProfile =
  wPelletCount :: nat
  wSpreadAngle :: real
  wPelletSpeed :: real
  wColor :: string
  wDamage :: real
  wRadius :: real
  wLifetime :: real
  wRecoilForce :: real
  wCooldown :: real

definition weaponProfileOf :: "weaponSystem \<Rightarrow> player \<Rightarrow> string \<Rightarrow> weaponProfile" where
  "weaponProfileOf ws p weapon =
     (if weapon = ''SNIPER''
      then \<lparr>wPelletCount = 1, wSpreadAngle = 0, wPelletSpeed = 2200, wColor = ''#ff3366'',
            wDamage = 70, wRadius = 4, wLifetime = 2.0, wRecoilForce = 400, wCooldown = 1.0\<rparr>
      else if weapon = ''MACHINE_GUN''
      then \<lparr>wPelletCount = 1, wSpreadAngle = pi / 12, wPelletSpeed = 1000, wColor = ''#00d4ff'',
            wDamage = 10, wRadius = 2, wLifetime = 1.5, wRecoilForce = 30, wCooldown = 0.12\<rparr>
      else \<lparr>wPelletCount = pelletCount ws, wSpreadAngle = spreadAngle ws,
            wPelletSpeed = pelletSpeed ws, wColor = color p,
            wDamage = 15, wRadius = 2, wLifetime = 1.5, wRecoilForce = 150, wCooldown = 0.35\<rparr>)"

text \<open>
  Pellet \<open>i\<close> of the loop: its base angle on the arc, and the projectile after the two
  random draws of the iteration (the angle jitter first, the speed jitter second).
\<close>

definition pelletAngle :: "weaponProfile \<Rightarrow> real \<Rightarrow> nat \<Rightarrow> real" where
  "pelletAngle w baseAngle i =
     (let halfSpread = wSpreadAngle w / 2;
          t = (if wPelletCount w > 1 then real i / real (wPelletCount w - 1) else 0.5)
      in baseAngle - halfSpread + wSpreadAngle w * t)"

definition pellet ::
  "(nat \<Rightarrow> real) \<Rightarrow> weaponProfile \<Rightarrow> string \<Rightarrow> real \<Rightarrow> real \<Rightarrow> real \<Rightarrow> nat \<Rightarrow> projectile" where
  "pellet rnd w owner muzzleX muzzleY baseAngle i =
     (let angle = pelletAngle w baseAngle i;
          finalAngle = angle + (rnd (2 * i) - 0.5) * 0.05;
          speed = wPelletSpeed w + (rnd (2 * i + 1) - 0.5) * 50;
          pvx = cos finalAngle * speed;
          pvy = sin finalAngle * speed
      in (newProjectile muzzleX muzzleY pvx pvy owner (wColor w))
           \<lparr>damage := wDamage w, radius := wRadius w, lifetime := wLifetime w\<rparr>)"

text \<open>
  \<open>fire(player, targetX, targetY, particles)\<close>: the new projectiles and the player as
  the call leaves it. An absent or empty \<open>currentWeapon\<close> reads as the shotgun.
\<close>

definition fire ::
  "(nat \<Rightarrow> real) \<Rightarrow> weaponSystem \<Rightarrow> player \<Rightarrow> real \<Rightarrow> real \<Rightarrow> projectile list \<times> player" where
  "fire rnd ws p targetX targetY =
     (if \<not> canShoot p then ([], p)
      else
        let weapon = (case currentWeapon p of
                        None \<Rightarrow> ''SHOTGUN''
                      | Some w \<Rightarrow> if w = [] then ''SHOTGUN'' else w);
            w = weaponProfileOf ws p weapon;
            p1 = p\<lparr>shootCooldownMax := wCooldown w\<rparr>;
            p2 = p1\<lparr>shootCooldown := shootCooldownMax p1, shotsFired := shotsFired p1 + 1\<rparr>;
            dx = targetX - x p2;
            dy = targetY - y p2;
            baseAngle = atan2 dy dx;
            muzzleX = x p2 + cos baseAngle * muzzleOffset ws;
            muzzleY = y p2 + sin baseAngle * muzzleOffset ws;
            projectiles = map (pellet rnd w (playerId p2) muzzleX muzzleY baseAngle)
                              [0..<wPelletCount w]
        in (projectiles,
            p2\<lparr>vx := vx p2 - cos baseAngle * wRecoilForce w,
               vy := vy p2 - sin baseAngle * wRecoilForce w\<rparr>))"

section \<open>Wire forms (serialize and fromSerialized of the entities)\<close>

text \<open>
  The wire objects, with the abbreviated keys of the source behind a prefix for the
  entity kind: \<open>pl_sa\<close> is the key \<open>sa\<close> of a player, \<open>pj_o\<close> the key \<open>o\<close> of a projectile,
  \<open>mt_rot\<close> the key \<open>rot\<close> of a meteorite, \<open>pk_t\<close> the key \<open>t\<close> of a pickup. The keys \<open>x\<close>
  and \<open>y\<close> are shared.
\<close>

record playerData = Vec2 +
  pl_id :: string
  pl_idx :: int
  pl_n :: string
  pl_c :: string
  pl_vx :: real
  pl_vy :: real
  pl_gr :: bool
  pl_sa :: real
  pl_mx :: real
  pl_fl :: bool
  pl_hp :: real
  pl_al :: bool
  pl_k :: int
  pl_d :: int
  pl_df :: real
  pl_rt :: real
  pl_iv :: bool

record projectileData = Vec2 +
  pj_vx :: real
  pj_vy :: real
  pj_o :: string
  pj_c :: string
  pj_a :: real

record meteoriteData = Vec2 +
  mt_vx :: real
  mt_vy :: real
  mt_r :: real
  mt_rot :: real
  mt_sh :: "real list"

record pickupData = Vec2 +
  pk_id :: string
  pk_t :: string

text \<open>\<open>Math.round(v * 10) / 10\<close> and \<open>Math.round(v * 100) / 100\<close>.\<close>

definition round1 :: "real \<Rightarrow> real" where
  "round1 v = js_round (v * 10) / 10"

definition round2 :: "real \<Rightarrow> real" where
  "round2 v = js_round (v * 100) / 100"

definition serializePlayer :: "player \<Rightarrow> playerData" where
  "serializePlayer p =
     \<lparr>x = round1 (x p), y = round1 (y p),
      pl_id = playerId p, pl_idx = index p, pl_n = name p, pl_c = color p,
      pl_vx = round1 (vx p), pl_vy = round1 (vy p),
      pl_gr = isGrounded p, pl_sa = round2 (surfaceAngle p), pl_mx = round2 (moveX p),
      pl_fl = facingLeft p, pl_hp = health p, pl_al = alive p,
      pl_k = kills p, pl_d = deaths p,
      pl_df = round2 (damageFlash p), pl_rt = round2 (respawnTimer p),
      pl_iv = (invulnerable p > 0)\<rparr>"

definition applyState :: "playerData \<Rightarrow> player \<Rightarrow> player" where
  "applyState d p =
     p\<lparr>x := x d, y := y d, vx := pl_vx d, vy := pl_vy d,
       isGrounded := pl_gr d, surfaceAngle := pl_sa d, moveX := pl_mx d,
       facingLeft := pl_fl d, health := pl_hp d, alive := pl_al d,
       kills := pl_k d, deaths := pl_d d, damageFlash := pl_df d,
       respawnTimer := pl_rt d, invulnerable := (if pl_iv d then 1 else 0)\<rparr>"

definition playerFromSerialized :: "playerData \<Rightarrow> player" where
  "playerFromSerialized d =
     applyState d ((newPlayer (pl_id d) (pl_idx d))\<lparr>name := pl_n d, color := pl_c d\<rparr>)"

definition serializeProjectile :: "projectile \<Rightarrow> projectileData" where
  "serializeProjectile q =
     \<lparr>x = js_round (x q), y = js_round (y q),
      pj_vx = js_round (vx q), pj_vy = js_round (vy q),
      pj_o = ownerId q, pj_c = projColor q, pj_a = round2 (age q)\<rparr>"

definition projectileFromSerialized :: "projectileData \<Rightarrow> projectile" where
  "projectileFromSerialized d =
     (newProjectile (x d) (y d) (pj_vx d) (pj_vy d) (pj_o d) (pj_c d))\<lparr>age := pj_a d\<rparr>"

definition serializeMeteorite :: "meteorite \<Rightarrow> meteoriteData" where
  "serializeMeteorite m =
     \<lparr>x = js_round (x m), y = js_round (y m),
      mt_vx = js_round (vx m), mt_vy = js_round (vy m),
      mt_r = radius m, mt_rot = round2 (rotation m), mt_sh = shape m\<rparr>"

definition meteoriteFromSerialized :: "(nat \<Rightarrow> real) \<Rightarrow> meteoriteData \<Rightarrow> meteorite" where
  "meteoriteFromSerialized rnd d =
     (newMeteorite rnd (x d) (y d) (mt_vx d) (mt_vy d) (mt_r d))
       \<lparr>rotation := mt_rot d, shape := mt_sh d\<rparr>"

text \<open>
  \<open>new Pickup(id, x, y, typeKey)\<close> draws the phase of the bobbing; the entry of the
  colour and icon table that it also stores only serves drawing and is left out.
\<close>

definition newPickup :: "(nat \<Rightarrow> real) \<Rightarrow> string \<Rightarrow> real \<Rightarrow> real \<Rightarrow> string \<Rightarrow> pickup" where
  "newPickup rnd i px py t =
     \<lparr>x = px, y = py, radius = 15,
      pickupId = i, typeKey = t, pickupActive = True, time = rnd 0 * 10,
      baseX = px, baseY = py, pickupSurfaceAngle = 0\<rparr>"

definition serializePickup :: "pickup \<Rightarrow> pickupData" where
  "serializePickup k =
     \<lparr>x = js_round (x k), y = js_round (y k), pk_id = pickupId k, pk_t = typeKey k\<rparr>"

definition pickupFromSerialized :: "(nat \<Rightarrow> real) \<Rightarrow> pickupData \<Rightarrow> pickup" where
  "pickupFromSerialized rnd d = newPickup rnd (pk_id d) (x d) (y d) (pk_t d)"

section \<open>ClientState (the rewritten network/ClientState.js)\<close>

text \<open>
  The state message of the host and a buffered snapshot. The clock
  \<open>performance.now()\<close> is an argument of the two operations.
\<close>

record gameState =
  st_players :: "playerData list"
  st_projectiles :: "projectileData list"
  st_meteorites :: "meteoriteData list"
  st_timer :: real
  st_time :: real

record snapshot =
  state :: gameState
  timestamp :: real

definition interpDelay :: real where
  "interpDelay = 100"

text \<open>The \<open>state\<close> case of the data handler: push, then drop the oldest beyond ten.\<close>

definition pushState :: "snapshot list \<Rightarrow> gameState \<Rightarrow> real \<Rightarrow> snapshot list" where
  "pushState buf st now =
     (let b1 = buf @ [\<lparr>state = st, timestamp = now\<rparr>]
      in if length b1 > 10 then tl b1 else b1)"

text \<open>The two \<open>while\<close> loops of \<open>Physics.lerpAngle\<close>.\<close>

function wrapDown :: "real \<Rightarrow> real" where
  "wrapDown d = (if d > pi then wrapDown (d - pi * 2) else d)"
  by pat_completeness auto
termination
proof (relation "measure (\<lambda>d. nat \<lceil>d / (pi * 2)\<rceil>)")
  show "wf (measure (\<lambda>d. nat \<lceil>d / (pi * 2)\<rceil>))" by simp
next
  fix d :: real
  assume "pi < d"
  then have h: "1 / 2 < d / (pi * 2)"
    using pi_gt_zero by (simp add: field_simps)
  have e: "(d - pi * 2) / (pi * 2) = d / (pi * 2) - 1"
    using pi_gt_zero by (simp add: field_simps)
  have "0 < \<lceil>d / (pi * 2)\<rceil>" using h by linarith
  then have "nat \<lceil>d / (pi * 2) - 1\<rceil> < nat \<lceil>d / (pi * 2)\<rceil>" by simp
  then show "(d - pi * 2, d) \<in> measure (\<lambda>d. nat \<lceil>d / (pi * 2)\<rceil>)"
    by (simp add: e)
qed

function wrapUp :: "real \<Rightarrow> real" where
  "wrapUp d = (if d < - pi then wrapUp (d + pi * 2) else d)"
  by pat_completeness auto
termination
proof (relation "measure (\<lambda>d. nat \<lceil>- d / (pi * 2)\<rceil>)")
  show "wf (measure (\<lambda>d. nat \<lceil>- d / (pi * 2)\<rceil>))" by simp
next
  fix d :: real
  assume "d < - pi"
  then have h: "1 / 2 < - d / (pi * 2)"
    using pi_gt_zero by (simp add: field_simps)
  have e: "- (d + pi * 2) / (pi * 2) = - d / (pi * 2) - 1"
    using pi_gt_zero by (simp add: field_simps)
  have "0 < \<lceil>- d / (pi * 2)\<rceil>" using h by linarith
  then have l: "nat \<lceil>- d / (pi * 2) - 1\<rceil> < nat \<lceil>- d / (pi * 2)\<rceil>" by simp
  show "(d + pi * 2, d) \<in> measure (\<lambda>d. nat \<lceil>- d / (pi * 2)\<rceil>)"
    unfolding in_measure e by (rule l)
qed

declare wrapDown.simps [simp del] wrapUp.simps [simp del]

definition lerpAngle :: "real \<Rightarrow> real \<Rightarrow> real \<Rightarrow> real" where
  "lerpAngle a b t = a + wrapUp (wrapDown (b - a)) * t"

text \<open>The search loop: the first adjacent pair whose timestamps bracket the render time.\<close>

fun findBracket :: "snapshot list \<Rightarrow> real \<Rightarrow> (snapshot \<times> snapshot) option" where
  "findBracket (a # b # rest) renderTime =
     (if timestamp a \<le> renderTime \<and> timestamp b \<ge> renderTime then Some (a, b)
      else findBracket (b # rest) renderTime)"
| "findBracket [a] renderTime = None"
| "findBracket [] renderTime = None"

text \<open>
  The loop over the players of the copied newer state: a player with a counterpart of
  the same id in the older state is moved, any other is left as it is.
\<close>

definition interpolatePlayer :: "playerData list \<Rightarrow> real \<Rightarrow> playerData \<Rightarrow> playerData" where
  "interpolatePlayer fromPlayers clampedT pd =
     (case List.find (\<lambda>q. pl_id q = pl_id pd) fromPlayers of
        None \<Rightarrow> pd
      | Some fp \<Rightarrow>
          pd\<lparr>x := lerp (x fp) (x pd) clampedT,
             y := lerp (y fp) (y pd) clampedT,
             pl_sa := lerpAngle (pl_sa fp) (pl_sa pd) clampedT\<rparr>)"

text \<open>
  \<open>getInterpolatedState()\<close>; \<open>None\<close> is the \<open>null\<close> of an empty buffer. A state message
  always carries its player list, and the copy through JSON changes nothing of a state
  made of numbers, strings, booleans and lists.
\<close>

definition getInterpolatedState :: "snapshot list \<Rightarrow> real \<Rightarrow> gameState option" where
  "getInterpolatedState buf now =
     (if length buf < 2
      then (if length buf > 0 then Some (state (last buf)) else None)
      else
        let renderTime = now - interpDelay
        in case findBracket buf renderTime of
             None \<Rightarrow> Some (state (last buf))
           | Some (fromS, toS) \<Rightarrow>
               let range = timestamp toS - timestamp fromS;
                   t = (if range > 0 then (renderTime - timestamp fromS) / range else 0);
                   clampedT = max 0 (min 1 t)
               in Some ((state toS)
                    \<lparr>st_players :=
                       map (interpolatePlayer (st_players (state fromS)) clampedT)
                           (st_players (state toS))\<rparr>))"

section \<open>Specification-side notions\<close>

text \<open>
  The vector sum the specification speaks of: the pulls of exactly the planets whose
  gravity range exceeds the distance to the position, added componentwise.
\<close>

definition inRange :: "Vec2 \<Rightarrow> planet \<Rightarrow> bool" where
  "inRange pos pl = (distTo pos (posOf pl) < gravityRange pl)"

definition pullSum :: "Vec2 \<Rightarrow> planet list \<Rightarrow> Vec2" where
  "pullSum pos planets =
     \<lparr>x = sum_list (map (\<lambda>pl. x (gravityAccel pos pl)) (filter (inRange pos) planets)),
      y = sum_list (map (\<lambda>pl. y (gravityAccel pos pl)) (filter (inRange pos) planets))\<rparr>"

text \<open>
  The guard of the meteorite-player loop on one player, and the shape of the only event
  that loop can emit.
\<close>

definition meteoriteHits :: "meteorite \<Rightarrow> player \<Rightarrow> bool" where
  "meteoriteHits met p =
     (alive p \<and> \<not> invulnerable p > 0
      \<and> circleCollision (x met) (y met) (radius met) (x p) (y p) (radius p + 2))"

definition isMeteoriteKill :: "event \<Rightarrow> bool" where
  "isMeteoriteKill e = (case e of Kill k v kn vn \<Rightarrow> k = ''__meteorite'' \<and> kn = Some meteoriteKillerName
                         | _ \<Rightarrow> False)"

text \<open>
  The effective spawn interval in the specification's words: a short constant inside the
  shower window, otherwise the base interval decayed by the elapsed match time, not below
  the floor.
\<close>

definition effectiveIntervalSpec :: "hazardSystem \<Rightarrow> real \<Rightarrow> bool \<Rightarrow> real" where
  "effectiveIntervalSpec hs elapsed shower =
     (if shower then 0.3 else max (minInterval hs) (baseInterval hs - elapsed * escalationRate hs))"

text \<open>
  The shotgun in the specification's words: seven slots spread evenly over an arc of 45
  degrees centred on the aim direction, a small jitter of angle and of speed for each
  pellet, and the projectile this gives for slot \<open>i\<close>.
\<close>

definition pelletBaseAngle :: "real \<Rightarrow> nat \<Rightarrow> real" where
  "pelletBaseAngle aim i = aim - pi / 8 + real i * (pi / 24)"

definition angleJitter :: "(nat \<Rightarrow> real) \<Rightarrow> nat \<Rightarrow> real" where
  "angleJitter rnd i = (rnd (2 * i) - 1 / 2) * 0.05"

definition speedJitter :: "(nat \<Rightarrow> real) \<Rightarrow> nat \<Rightarrow> real" where
  "speedJitter rnd i = (rnd (2 * i + 1) - 1 / 2) * 50"

definition shotgunPellet :: "(nat \<Rightarrow> real) \<Rightarrow> player \<Rightarrow> real \<Rightarrow> nat \<Rightarrow> projectile" where
  "shotgunPellet rnd p aim i =
     (newProjectile (x p + cos aim * 30) (y p + sin aim * 30)
        (cos (pelletBaseAngle aim i + angleJitter rnd i) * (1200 + speedJitter rnd i))
        (sin (pelletBaseAngle aim i + angleJitter rnd i) * (1200 + speedJitter rnd i))
        (playerId p) (color p))
     \<lparr>damage := 15, radius := 2, lifetime := 1.5\<rparr>"

text \<open>Two numbers within a given precision of one another.\<close>

definition closeTo :: "real \<Rightarrow> real \<Rightarrow> real \<Rightarrow> bool" where
  "closeTo eps a b = (\<bar>a - b\<bar> \<le> eps)"

text \<open>
  Interpolation in the specification's words: a pair of snapshots brackets the render
  time; the fractional position of the render time in the pair's interval (taken as 0
  for an interval of length 0); the clamp to [0, 1].
\<close>

definition brackets :: "snapshot \<Rightarrow> snapshot \<Rightarrow> real \<Rightarrow> bool" where
  "brackets a b renderTime = (timestamp a \<le> renderTime \<and> renderTime \<le> timestamp b)"

definition fraction :: "snapshot \<Rightarrow> snapshot \<Rightarrow> real \<Rightarrow> real" where
  "fraction a b renderTime =
     (if timestamp b - timestamp a > 0
      then (renderTime - timestamp a) / (timestamp b - timestamp a) else 0)"

definition clamp01 :: "real \<Rightarrow> real" where
  "clamp01 t = max 0 (min 1 t)"

section \<open>Vector lengths and the velocity clamp\<close>

lemma lengthV_scale: "lengthV \<lparr>x = a * s, y = b * s\<rparr> = lengthV \<lparr>x = a, y = b\<rparr> * \<bar>s\<bar>"
proof -
  have "(a * s) * (a * s) + (b * s) * (b * s) = (a * a + b * b) * (s * s)"
    by (simp add: algebra_simps)
  then show ?thesis
    by (simp add: lengthV_def real_sqrt_mult)
qed

lemma lengthV_normalizeV:
  assumes "lengthV v \<noteq> 0"
  shows "lengthV (normalizeV v) = 1"
proof -
  let ?l = "lengthV v"
  have pos: "?l > 0" using assms by (simp add: lengthV_def less_le)
  have "lengthV \<lparr>x = x v * (1 / ?l), y = y v * (1 / ?l)\<rparr> = lengthV \<lparr>x = x v, y = y v\<rparr> * \<bar>1 / ?l\<bar>"
    by (rule lengthV_scale)
  moreover have "lengthV \<lparr>x = x v, y = y v\<rparr> = ?l" by (simp add: lengthV_def)
  ultimately show ?thesis using pos by (simp add: normalizeV_def Let_def)
qed

lemma lengthV_clampVelocity: "lengthV (clampVelocity v) \<le> MAX_VELOCITY"
proof (cases "lengthV v > MAX_VELOCITY")
  case True
  then have nz: "lengthV v \<noteq> 0" by (simp add: MAX_VELOCITY_def)
  have "lengthV (scaleV (normalizeV v) MAX_VELOCITY)
        = lengthV \<lparr>x = x (normalizeV v), y = y (normalizeV v)\<rparr> * \<bar>MAX_VELOCITY\<bar>"
    unfolding scaleV_def by (rule lengthV_scale)
  also have "lengthV \<lparr>x = x (normalizeV v), y = y (normalizeV v)\<rparr> = lengthV (normalizeV v)"
    by (simp add: lengthV_def)
  finally show ?thesis using True lengthV_normalizeV[OF nz]
    by (simp add: clampVelocity_def Let_def MAX_VELOCITY_def)
next
  case False
  then show ?thesis by (simp add: clampVelocity_def Let_def)
qed

lemma lengthV_nonneg: "0 \<le> lengthV a"
  by (simp add: lengthV_def)

lemma lengthV_eta: "lengthV \<lparr>x = x v, y = y v\<rparr> = lengthV v"
  by (simp add: lengthV_def)

lemma clamped_speed:
  "lengthV \<lparr>x = x (clampVelocity w), y = y (clampVelocity w)\<rparr> \<le> MAX_VELOCITY"
  using lengthV_clampVelocity[of w] by (simp add: lengthV_eta)

lemma clamped_damped_speed:
  "lengthV \<lparr>x = x (clampVelocity w) * 0.2, y = y (clampVelocity w) * 0.2\<rparr> \<le> MAX_VELOCITY"
proof -
  let ?v = "clampVelocity w"
  have "lengthV \<lparr>x = x ?v * 0.2, y = y ?v * 0.2\<rparr> = lengthV ?v * 0.2"
    using lengthV_scale[of "x ?v" "0.2" "y ?v"] by (simp add: lengthV_eta)
  also have "\<dots> \<le> lengthV ?v" using lengthV_nonneg[of ?v] by simp
  finally show ?thesis using lengthV_clampVelocity[of w] by simp
qed

lemma airborneStep_speed:
  "lengthV \<lparr>x = vx (airborneStep p np accel mayLand dt), y = vy (airborneStep p np accel mayLand dt)\<rparr>
     \<le> MAX_VELOCITY"
  using clamped_speed clamped_damped_speed
  by (simp add: airborneStep_def Let_def del: divide_const_simps)

section \<open>Jump and the jump-grace timer\<close>

lemma updateTimers_keeps:
  "isGrounded (updateTimers dt p) = isGrounded p
   \<and> jumpGraceTimer (updateTimers dt p) = jumpGraceTimer p
   \<and> alive (updateTimers dt p) = alive p"
  by (simp add: updateTimers_def Let_def)

lemma airborneStep_no_landing:
  "\<not> isGrounded p \<Longrightarrow> \<not> isGrounded (airborneStep p np accel False dt)
     \<and> jumpGraceTimer (airborneStep p np accel False dt) = jumpGraceTimer p
     \<and> alive (airborneStep p np accel False dt) = alive p"
  by (simp add: airborneStep_def Let_def)

lemma handlePlayerGravity_grace:
  assumes "\<not> isGrounded p" "\<not> canLand p"
  shows "\<not> isGrounded (handlePlayerGravity rnd p nearest accel dt)
       \<and> jumpGraceTimer (handlePlayerGravity rnd p nearest accel dt) = jumpGraceTimer p
       \<and> alive (handlePlayerGravity rnd p nearest accel dt) = alive p"
  using assms airborneStep_no_landing[of p]
  by (auto simp: handlePlayerGravity_def Let_def split: option.splits)

lemma hostPlayerTick_grace:
  assumes "\<not> isGrounded p" "\<not> canLand p"
  shows "\<not> isGrounded (hostPlayerTick rnd planets dt p)
       \<and> jumpGraceTimer (hostPlayerTick rnd planets dt p) = jumpGraceTimer p"
  using assms handlePlayerGravity_grace[OF assms] updateTimers_keeps
  by (simp add: hostPlayerTick_def applyGravityPlayer_def)

lemma hostPlayerTicks_grace:
  assumes "\<not> isGrounded p" "\<not> canLand p"
  shows "\<not> isGrounded (fold (hostPlayerTick rnd planets) dts p)
       \<and> jumpGraceTimer (fold (hostPlayerTick rnd planets) dts p) = jumpGraceTimer p"
  using assms
proof (induction dts arbitrary: p)
  case Nil
  then show ?case by simp
next
  case (Cons dt dts)
  have a: "\<not> isGrounded (hostPlayerTick rnd planets dt p)"
    and b: "jumpGraceTimer (hostPlayerTick rnd planets dt p) = jumpGraceTimer p"
    using hostPlayerTick_grace[OF Cons.prems] by auto
  have c: "\<not> canLand (hostPlayerTick rnd planets dt p)"
    using Cons.prems(2) b by (simp add: canLand_def)
  show ?case using Cons.IH[OF a c] b by simp
qed

lemma jump_effect:
  assumes "isGrounded p" "canJump p"
  shows "fst (jump p np)"
    and "\<not> isGrounded (snd (jump p np))"
    and "jumpGraceTimer (snd (jump p np)) = Some 0.35"
    and "vx (snd (jump p np))
         = x (normalizeV \<lparr>x = x p - x np, y = y p - y np\<rparr>) * jumpForce p
           * (if themeKey np = ''crystal'' then 1.5 else 1)"
    and "vy (snd (jump p np))
         = y (normalizeV \<lparr>x = x p - x np, y = y p - y np\<rparr>) * jumpForce p
           * (if themeKey np = ''crystal'' then 1.5 else 1)"
    and "x (snd (jump p np)) = x p + x (normalizeV \<lparr>x = x p - x np, y = y p - y np\<rparr>) * 12"
    and "y (snd (jump p np)) = y p + y (normalizeV \<lparr>x = x p - x np, y = y p - y np\<rparr>) * 12"
  using assms by (simp_all add: jump_def Let_def surfaceThreshold_def)

text \<open>
  C1. A jump of a grounded player that may jump succeeds, clears \<open>isGrounded\<close>, sets the
  velocity to \<open>jumpForce\<close> along the outward radial direction (times 1.5 on a crystal
  planet), moves the player 12 units outward (the threshold of 8 and 4 more) and sets the
  grace timer to 0.35. From then on the timer is never decremented:
  \<open>updateTimers\<close> counts down \<open>jumpCooldown\<close>, not \<open>jumpGraceTimer\<close>. So after any number
  of host ticks, of any durations, the timer still reads 0.35, landing is still
  suppressed and the player is still airborne: the grace period does not expire after
  0.35 s.
\<close>

theorem jump_grace_timer_never_expires:
  assumes "isGrounded p" and "canJump p"
  shows "fst (jump p np)
       \<and> \<not> isGrounded (snd (jump p np))
       \<and> jumpGraceTimer (snd (jump p np)) = Some 0.35
       \<and> vx (snd (jump p np))
           = x (normalizeV \<lparr>x = x p - x np, y = y p - y np\<rparr>) * jumpForce p
             * (if themeKey np = ''crystal'' then 1.5 else 1)
       \<and> vy (snd (jump p np))
           = y (normalizeV \<lparr>x = x p - x np, y = y p - y np\<rparr>) * jumpForce p
             * (if themeKey np = ''crystal'' then 1.5 else 1)
       \<and> x (snd (jump p np)) = x p + x (normalizeV \<lparr>x = x p - x np, y = y p - y np\<rparr>) * 12
       \<and> y (snd (jump p np)) = y p + y (normalizeV \<lparr>x = x p - x np, y = y p - y np\<rparr>) * 12
       \<and> \<not> isGrounded (fold (hostPlayerTick rnd planets) dts (snd (jump p np)))
       \<and> jumpGraceTimer (fold (hostPlayerTick rnd planets) dts (snd (jump p np))) = Some 0.35
       \<and> \<not> canLand (fold (hostPlayerTick rnd planets) dts (snd (jump p np)))"
proof -
  let ?q = "snd (jump p np)"
  have g: "\<not> isGrounded ?q" and t: "jumpGraceTimer ?q = Some 0.35"
    using jump_effect[OF assms] by auto
  have c: "\<not> canLand ?q" using t by (simp add: canLand_def)
  have k: "\<not> isGrounded (fold (hostPlayerTick rnd planets) dts ?q)
         \<and> jumpGraceTimer (fold (hostPlayerTick rnd planets) dts ?q) = jumpGraceTimer ?q"
    by (rule hostPlayerTicks_grace[OF g c])
  have c': "\<not> canLand (fold (hostPlayerTick rnd planets) dts ?q)"
    using k t by (simp add: canLand_def)
  show ?thesis using jump_effect[OF assms, of np] k t c' by simp
qed

text \<open>
  One second of ticks at 60 Hz after a jump from the top of a planet: still airborne,
  the timer still at 0.35.
\<close>

theorem jump_grace_timer_never_expires_witness:
  "sum_list (replicate 60 (1 / 60 :: real)) = 1
   \<and> \<not> isGrounded (fold (hostPlayerTick (\<lambda>n. 0) [newPlanet 0 0 100 ''forest''])
                     (replicate 60 (1 / 60))
                     (snd (jump (spawn (newPlanet 0 0 100 ''forest'') (pi / 2) (newPlayer ''host'' 0))
                                (newPlanet 0 0 100 ''forest''))))
   \<and> jumpGraceTimer (fold (hostPlayerTick (\<lambda>n. 0) [newPlanet 0 0 100 ''forest''])
                     (replicate 60 (1 / 60))
                     (snd (jump (spawn (newPlanet 0 0 100 ''forest'') (pi / 2) (newPlayer ''host'' 0))
                                (newPlanet 0 0 100 ''forest''))))
     = Some 0.35"
proof -
  let ?pl = "newPlanet 0 0 100 ''forest''"
  let ?p = "spawn ?pl (pi / 2) (newPlayer ''host'' 0)"
  have g: "isGrounded ?p" by (simp add: spawn_def Let_def)
  have c: "canJump ?p" by (simp add: spawn_def newPlayer_def Let_def)
  have s: "sum_list (replicate 60 (1 / 60 :: real)) = 1" by (simp add: sum_list_replicate)
  show ?thesis
    using jump_grace_timer_never_expires[OF g c, of ?pl "\<lambda>n. 0" "[?pl]" "replicate 60 (1 / 60)"] s
    by blast
qed

section \<open>The airborne branch and axis-aligned lengths\<close>

lemma handlePlayerGravity_airborne:
  assumes "\<not> isGrounded p" "d > surfaceThreshold \<or> \<not> canLand p"
  shows "handlePlayerGravity rnd p (Some (np, d)) accel dt = airborneStep p np accel (canLand p) dt"
  using assms by (auto simp: handlePlayerGravity_def Let_def)

lemma lengthV_axis_x: "lengthV \<lparr>x = a, y = 0\<rparr> = \<bar>a\<bar>"
  by (simp add: lengthV_def)

lemma lengthV_axis_y: "lengthV \<lparr>x = 0, y = b\<rparr> = \<bar>b\<bar>"
  by (simp add: lengthV_def)

section \<open>Gravity of projectiles and meteorites in the host tick\<close>

lemma fold_accel:
  "fold (\<lambda>pl acc. if distTo pos (posOf pl) < gravityRange pl
                   then addV acc (gravityAccel pos pl) else acc) planets acc
   = addV acc (pullSum pos planets)"
  by (induction planets arbitrary: acc) (simp_all add: addV_def pullSum_def inRange_def)

lemma totalAccel_pullSum: "totalAccel pos planets = pullSum pos planets"
  by (simp add: totalAccel_def fold_accel addV_def pullSum_def)

lemma posOf_velocity [simp]:
  "posOf (e\<lparr>vx := a, vy := b\<rparr>) = posOf e"
  by (simp add: posOf_def)

lemma pullSum_Cons:
  "pullSum pos (pl # pls) =
     (if inRange pos pl then addV (gravityAccel pos pl) (pullSum pos pls) else pullSum pos pls)"
  by (simp add: pullSum_def addV_def)

lemma fold_projectile_pull:
  "fold (\<lambda>pl pr.
             if distTo (posOf pr) (posOf pl) < gravityRange pl
             then let accel = gravityAccel (posOf pr) pl
                  in pr\<lparr>vx := vx pr + x accel * dt, vy := vy pr + y accel * dt\<rparr>
             else pr) planets (proj :: projectile)
   = proj\<lparr>vx := vx proj + x (pullSum (posOf proj) planets) * dt,
          vy := vy proj + y (pullSum (posOf proj) planets) * dt\<rparr>"
proof (induction planets arbitrary: proj)
  case Nil
  show ?case by (simp add: pullSum_def)
next
  case (Cons pl pls)
  show ?case
    by (simp add: Cons.IH Let_def pullSum_Cons inRange_def addV_def algebra_simps)
qed

lemma fold_meteorite_pull:
  "fold (\<lambda>pl m.
             if distTo (posOf m) (posOf pl) < gravityRange pl
             then let accel = gravityAccel (posOf m) pl
                  in m\<lparr>vx := vx m + x accel * dt * 0.5, vy := vy m + y accel * dt * 0.5\<rparr>
             else m) planets (met :: meteorite)
   = met\<lparr>vx := vx met + x (pullSum (posOf met) planets) * dt * 0.5,
          vy := vy met + y (pullSum (posOf met) planets) * dt * 0.5\<rparr>"
proof (induction planets arbitrary: met)
  case Nil
  show ?case by (simp add: pullSum_def)
next
  case (Cons pl pls)
  show ?case
    by (simp add: Cons.IH Let_def pullSum_Cons inRange_def addV_def algebra_simps)
qed

text \<open>
  C4 (as amended). In the host tick the gravity loop of a projectile changes nothing but
  the velocity, by \<open>a * dt\<close>; the loop of a meteorite changes nothing but the velocity, by
  \<open>a * dt * 0.5\<close>; in both, \<open>a\<close> is the sum of the pulls of the planets in range.
\<close>

theorem host_gravity_integration:
  "hostProjectileGravity planets dt proj
     = proj\<lparr>vx := vx proj + x (totalAccel (posOf proj) planets) * dt,
            vy := vy proj + y (totalAccel (posOf proj) planets) * dt\<rparr>
   \<and> hostMeteoriteGravity planets dt met
     = met\<lparr>vx := vx met + x (totalAccel (posOf met) planets) * dt * 0.5,
           vy := vy met + y (totalAccel (posOf met) planets) * dt * 0.5\<rparr>
   \<and> totalAccel pos planets
     = \<lparr>x = sum_list (map (\<lambda>pl. x (gravityAccel pos pl))
                 (filter (\<lambda>pl. distTo pos (posOf pl) < gravityRange pl) planets)),
        y = sum_list (map (\<lambda>pl. y (gravityAccel pos pl))
                 (filter (\<lambda>pl. distTo pos (posOf pl) < gravityRange pl) planets))\<rparr>"
proof -
  have a: "hostProjectileGravity planets dt proj
     = proj\<lparr>vx := vx proj + x (totalAccel (posOf proj) planets) * dt,
            vy := vy proj + y (totalAccel (posOf proj) planets) * dt\<rparr>"
    unfolding hostProjectileGravity_def totalAccel_pullSum by (rule fold_projectile_pull)
  have b: "hostMeteoriteGravity planets dt met
     = met\<lparr>vx := vx met + x (totalAccel (posOf met) planets) * dt * 0.5,
           vy := vy met + y (totalAccel (posOf met) planets) * dt * 0.5\<rparr>"
    unfolding hostMeteoriteGravity_def totalAccel_pullSum by (rule fold_meteorite_pull)
  have c: "totalAccel pos planets
     = \<lparr>x = sum_list (map (\<lambda>pl. x (gravityAccel pos pl))
                 (filter (\<lambda>pl. distTo pos (posOf pl) < gravityRange pl) planets)),
        y = sum_list (map (\<lambda>pl. y (gravityAccel pos pl))
                 (filter (\<lambda>pl. distTo pos (posOf pl) < gravityRange pl) planets))\<rparr>"
    by (simp add: totalAccel_pullSum pullSum_def inRange_def [abs_def])
  show ?thesis using a b c by blast
qed

lemma sqrt_40000: "sqrt 40000 = 200"
  using real_sqrt_abs2[of 200] by simp

lemma gravityAccel_example:
  "gravityAccel \<lparr>x = 200, y = 0\<rparr> (newPlanet 0 0 100 ''lava'') = \<lparr>x = - 8.25, y = 0\<rparr>"
  by (simp add: gravityAccel_def newPlanet_def lengthSq_def Let_def sqrt_40000 normalizeV_def
      lengthV_def scaleV_def GRAVITY_CONSTANT_def)

text \<open>
  A meteorite 200 units from the centre of a planet of radius 100 is pulled at 8.25
  units per second squared; its velocity after the gravity loop is not \<open>v + a * dt\<close>.
\<close>

theorem meteorite_gravity_counterexample:
  "vx (hostMeteoriteGravity [newPlanet 0 0 100 ''lava''] (1 / 60)
         (newMeteorite (\<lambda>n. 0) 200 0 0 0 15))
   \<noteq> vx (newMeteorite (\<lambda>n. 0) 200 0 0 0 15)
     + x (totalAccel (posOf (newMeteorite (\<lambda>n. 0) 200 0 0 0 15)) [newPlanet 0 0 100 ''lava''])
       * (1 / 60)"
proof -
  have r: "distTo \<lparr>x = 200, y = 0\<rparr> (posOf (newPlanet 0 0 100 ''lava'')) = 200"
    by (simp add: distTo_def subV_def posOf_def newPlanet_def lengthV_def sqrt_40000)
  have g: "gravityRange (newPlanet 0 0 100 ''lava'') = 500" by (simp add: newPlanet_def)
  have p: "posOf (newMeteorite (\<lambda>n. 0) 200 0 0 0 15) = \<lparr>x = 200, y = 0\<rparr>"
    by (simp add: posOf_def newMeteorite_def)
  show ?thesis
    by (simp add: hostMeteoriteGravity_def totalAccel_def p r g gravityAccel_example addV_def
        Let_def)
qed

section \<open>Velocity after a tick: clamped for players only\<close>

lemma hostProjectileTick_velocity:
  "vx (hostProjectileTick planets dt proj)
     = (if active proj then vx proj + x (totalAccel (posOf proj) planets) * dt else vx proj)
   \<and> vy (hostProjectileTick planets dt proj)
     = (if active proj then vy proj + y (totalAccel (posOf proj) planets) * dt else vy proj)"
  unfolding hostProjectileTick_def hostProjectileGravity_def totalAccel_pullSum
  by (simp add: fold_projectile_pull updateProjectile_def Let_def)

lemma hostMeteoriteTick_velocity:
  "vx (hostMeteoriteTick planets dt met)
     = (if active met then vx met + x (totalAccel (posOf met) planets) * dt * 0.5 else vx met)
   \<and> vy (hostMeteoriteTick planets dt met)
     = (if active met then vy met + y (totalAccel (posOf met) planets) * dt * 0.5 else vy met)"
  unfolding hostMeteoriteTick_def hostMeteoriteGravity_def totalAccel_pullSum
  by (simp add: fold_meteorite_pull updateMeteorite_def Let_def)

lemma applyGravitySimple_velocity:
  "applyGravitySimple planets dt e
     = e\<lparr>vx := vx e + x (totalAccel (posOf e) planets) * dt,
          vy := vy e + y (totalAccel (posOf e) planets) * dt\<rparr>"
  by (simp add: applyGravitySimple_def Let_def)

lemma applyGravityPlayer_speed:
  assumes "nearestPlanet (posOf p) planets = Some (np, d)"
    and "\<not> isGrounded p"
    and "d > surfaceThreshold \<or> \<not> canLand p"
  shows "lengthV \<lparr>x = vx (applyGravityPlayer rnd planets dt p),
                  y = vy (applyGravityPlayer rnd planets dt p)\<rparr> \<le> MAX_VELOCITY"
  using assms handlePlayerGravity_airborne[OF assms(2,3)] airborneStep_speed
  by (simp add: applyGravityPlayer_def)

text \<open>
  C2 (as amended). Whenever \<open>applyGravity\<close> takes a player through the airborne branch
  (a nearest planet exists, the player is not grounded and does not land at the start of
  the step), the speed of the player after the step is at most \<open>MAX_VELOCITY\<close>. The
  velocity of a projectile and of a meteorite is not bounded by the step: the host tick
  of an active projectile leaves its velocity at exactly \<open>v + a * dt\<close>, that of an active
  meteorite at exactly \<open>v + a * dt * 0.5\<close>, an inactive one keeps its velocity, and the
  branch of \<open>applyGravity\<close> for entities other than players leaves exactly \<open>v + a * dt\<close>;
  in each, \<open>a\<close> is the summed pull of the planets in range and no clamp follows.
\<close>

theorem velocity_bound_players_only:
  "(nearestPlanet (posOf p) planets = Some (np, d) \<and> \<not> isGrounded p
      \<and> (d > surfaceThreshold \<or> \<not> canLand p)
     \<longrightarrow> lengthV \<lparr>x = vx (applyGravityPlayer rnd planets dt p),
                    y = vy (applyGravityPlayer rnd planets dt p)\<rparr> \<le> MAX_VELOCITY)
   \<and> vx (hostProjectileTick planets dt proj)
       = (if active proj then vx proj + x (totalAccel (posOf proj) planets) * dt else vx proj)
   \<and> vy (hostProjectileTick planets dt proj)
       = (if active proj then vy proj + y (totalAccel (posOf proj) planets) * dt else vy proj)
   \<and> vx (hostMeteoriteTick planets dt met)
       = (if active met then vx met + x (totalAccel (posOf met) planets) * dt * 0.5 else vx met)
   \<and> vy (hostMeteoriteTick planets dt met)
       = (if active met then vy met + y (totalAccel (posOf met) planets) * dt * 0.5 else vy met)
   \<and> applyGravitySimple planets dt proj
       = proj\<lparr>vx := vx proj + x (totalAccel (posOf proj) planets) * dt,
              vy := vy proj + y (totalAccel (posOf proj) planets) * dt\<rparr>
   \<and> applyGravitySimple planets dt met
       = met\<lparr>vx := vx met + x (totalAccel (posOf met) planets) * dt,
             vy := vy met + y (totalAccel (posOf met) planets) * dt\<rparr>"
  using applyGravityPlayer_speed[of p planets np d rnd dt]
    hostProjectileTick_velocity[of planets dt proj]
    hostMeteoriteTick_velocity[of planets dt met]
    applyGravitySimple_velocity[of planets dt proj]
    applyGravitySimple_velocity[of planets dt met]
  by blast

text \<open>
  An airborne player at speed 5000 leaves the step at no more than 800; a pellet at
  1200 units/s with no planet in range leaves its tick at 1200 units/s.
\<close>

theorem velocity_bound_players_only_witness:
  "lengthV \<lparr>x = vx (applyGravityPlayer (\<lambda>n. 0) [newPlanet 0 0 100 ''lava''] (1 / 60)
                     ((newPlayer ''host'' 0)\<lparr>y := 200, vx := 3000, vy := 4000\<rparr>)),
            y = vy (applyGravityPlayer (\<lambda>n. 0) [newPlanet 0 0 100 ''lava''] (1 / 60)
                     ((newPlayer ''host'' 0)\<lparr>y := 200, vx := 3000, vy := 4000\<rparr>))\<rparr> \<le> MAX_VELOCITY
   \<and> lengthV \<lparr>x = 3000, y = 0\<rparr> > MAX_VELOCITY
   \<and> vx (hostProjectileTick [] (1 / 60) (newProjectile 0 0 1200 0 ''host'' ''#00d4ff'')) = 1200"
proof -
  let ?p = "(newPlayer ''host'' 0)\<lparr>y := 200, vx := 3000, vy := 4000\<rparr>"
  let ?pl = "newPlanet 0 0 100 ''lava''"
  let ?q = "newProjectile 0 0 1200 0 ''host'' ''#00d4ff''"
  have n: "nearestPlanet (posOf ?p) [?pl] = Some (?pl, 100)"
    by (simp add: nearestPlanet_def posOf_def newPlayer_def newPlanet_def distTo_def subV_def
        lengthV_axis_y)
  have g: "\<not> isGrounded ?p" by (simp add: newPlayer_def)
  have c: "100 > surfaceThreshold \<or> \<not> canLand ?p" by (simp add: surfaceThreshold_def)
  have a: "lengthV \<lparr>x = vx (applyGravityPlayer (\<lambda>n. 0) [?pl] (1 / 60) ?p),
                    y = vy (applyGravityPlayer (\<lambda>n. 0) [?pl] (1 / 60) ?p)\<rparr> \<le> MAX_VELOCITY"
    using velocity_bound_players_only[where p = ?p and planets = "[?pl]" and np = ?pl
        and d = 100 and rnd = "\<lambda>n. 0" and dt = "1 / 60"] n g c
    by blast
  have "vx (hostProjectileTick [] (1 / 60) ?q)
        = (if active ?q then vx ?q + x (totalAccel (posOf ?q) []) * (1 / 60) else vx ?q)"
    using velocity_bound_players_only[where planets = "[]" and dt = "1 / 60" and proj = ?q]
    by blast
  then have b: "vx (hostProjectileTick [] (1 / 60) ?q) = 1200"
    by (simp add: newProjectile_def totalAccel_def)
  have e: "lengthV \<lparr>x = 3000, y = 0\<rparr> > MAX_VELOCITY"
    by (simp add: lengthV_axis_x MAX_VELOCITY_def)
  show ?thesis using a e b by blast
qed

text \<open>
  Neither a projectile nor a meteorite is held to the bound. A shotgun pellet fired at
  1200 units/s is above 800 after its tick. A meteorite moving at exactly 800 units/s
  towards a planet 200 units away is within the bound before its tick and above it
  after.
\<close>

theorem unclamped_velocity_counterexample:
  "\<not> lengthV \<lparr>x = vx (hostProjectileTick [] (1 / 60) (newProjectile 0 0 1200 0 ''host'' ''#00d4ff'')),
              y = vy (hostProjectileTick [] (1 / 60) (newProjectile 0 0 1200 0 ''host'' ''#00d4ff''))\<rparr>
       \<le> MAX_VELOCITY
   \<and> lengthV \<lparr>x = vx (newMeteorite (\<lambda>n. 0) 200 0 (- 800) 0 15),
              y = vy (newMeteorite (\<lambda>n. 0) 200 0 (- 800) 0 15)\<rparr> \<le> MAX_VELOCITY
   \<and> \<not> lengthV \<lparr>x = vx (hostMeteoriteTick [newPlanet 0 0 100 ''lava''] (1 / 60)
                           (newMeteorite (\<lambda>n. 0) 200 0 (- 800) 0 15)),
                y = vy (hostMeteoriteTick [newPlanet 0 0 100 ''lava''] (1 / 60)
                           (newMeteorite (\<lambda>n. 0) 200 0 (- 800) 0 15))\<rparr>
       \<le> MAX_VELOCITY"
proof -
  let ?q = "newProjectile 0 0 1200 0 ''host'' ''#00d4ff''"
  let ?m = "newMeteorite (\<lambda>n. 0) 200 0 (- 800) 0 15"
  let ?pl = "newPlanet 0 0 100 ''lava''"
  have one: "\<not> lengthV \<lparr>x = vx (hostProjectileTick [] (1 / 60) ?q),
                         y = vy (hostProjectileTick [] (1 / 60) ?q)\<rparr> \<le> MAX_VELOCITY"
    by (simp add: hostProjectileTick_def hostProjectileGravity_def updateProjectile_def
        newProjectile_def Let_def lengthV_axis_x MAX_VELOCITY_def)
  have mv: "vx ?m = - 800" "vy ?m = 0" "active ?m"
    by (simp_all add: newMeteorite_def Let_def)
  have two: "lengthV \<lparr>x = vx ?m, y = vy ?m\<rparr> \<le> MAX_VELOCITY"
    unfolding mv by (simp add: lengthV_axis_x MAX_VELOCITY_def)
  have r: "distTo \<lparr>x = 200, y = 0\<rparr> (posOf ?pl) = 200"
    by (simp add: distTo_def subV_def posOf_def newPlanet_def lengthV_def sqrt_40000)
  have g: "gravityRange ?pl = 500" by (simp add: newPlanet_def)
  have p: "posOf ?m = \<lparr>x = 200, y = 0\<rparr>"
    by (simp add: posOf_def newMeteorite_def Let_def)
  have ta: "totalAccel (posOf ?m) [?pl] = \<lparr>x = - 8.25, y = 0\<rparr>"
    by (simp add: totalAccel_def p r g gravityAccel_example addV_def)
  have v: "vx (hostMeteoriteTick [?pl] (1 / 60) ?m) = - 800 - 8.25 * (1 / 60) * 0.5"
    "vy (hostMeteoriteTick [?pl] (1 / 60) ?m) = 0"
    using hostMeteoriteTick_velocity[of "[?pl]" "1 / 60" ?m]
    unfolding ta by (simp_all add: mv)
  have three: "\<not> lengthV \<lparr>x = vx (hostMeteoriteTick [?pl] (1 / 60) ?m),
                           y = vy (hostMeteoriteTick [?pl] (1 / 60) ?m)\<rparr> \<le> MAX_VELOCITY"
    unfolding v by (simp add: lengthV_axis_x MAX_VELOCITY_def)
  show ?thesis using one two three by blast
qed

section \<open>Projectiles against players\<close>

lemma firstIndex_Some:
  "firstIndex P xs = Some i \<Longrightarrow> i < length xs \<and> P (xs ! i) \<and> (\<forall>j<i. \<not> P (xs ! j))"
proof (induction xs arbitrary: i)
  case Nil
  then show ?case by simp
next
  case (Cons a as)
  show ?case
  proof (cases "P a")
    case True
    with Cons.prems show ?thesis by simp
  next
    case False
    with Cons.prems obtain k where k: "firstIndex P as = Some k" "i = Suc k"
      by (auto split: if_splits)
    from Cons.IH[OF k(1)] False k(2) show ?thesis
      by (auto simp: nth_Cons split: nat.splits)
  qed
qed

lemma firstIndex_None: "firstIndex P xs = None \<longleftrightarrow> (\<forall>a\<in>set xs. \<not> P a)"
  by (induction xs) auto

lemma takeDamage_keeps_id:
  "playerId (snd (takeDamage a p)) = playerId p \<and> name (snd (takeDamage a p)) = name p"
  by (simp add: takeDamage_def Let_def)

lemma resolveProjectile_miss:
  "firstIndex (hitTest proj) players = None \<Longrightarrow> resolveProjectile proj players = (players, proj, [])"
  by (simp add: resolveProjectile_def)

lemma nth_update_field:
  assumes "g (f (xs ! j)) = g (xs ! j)"
  shows "g (xs[j := f (xs ! j)] ! k) = g (xs ! k)"
proof (cases "j = k")
  case False
  then show ?thesis by simp
next
  case True
  show ?thesis
  proof (cases "k < length xs")
    case True
    with \<open>j = k\<close> assms show ?thesis by simp
  next
    case False
    then have "xs[k := f (xs ! k)] = xs" by (simp add: list_update_beyond)
    with \<open>j = k\<close> show ?thesis by simp
  qed
qed

lemma creditAt_length: "length (creditAt f a ps) = length ps"
  by (cases a) (simp_all add: creditAt_def)

lemma creditAt_health:
  "(\<And>q. health (f q) = health q) \<Longrightarrow> health (creditAt f a ps ! k) = health (ps ! k)"
  by (cases a) (simp_all add: creditAt_def nth_update_field)

lemma creditAt_alive:
  "(\<And>q. alive (f q) = alive q) \<Longrightarrow> alive (creditAt f a ps ! k) = alive (ps ! k)"
  by (cases a) (simp_all add: creditAt_def nth_update_field)

lemma credit_keeps [simp]:
  "health (creditHit d q) = health q" "alive (creditHit d q) = alive q"
  "health (creditKill q) = health q" "alive (creditKill q) = alive q"
  by (simp_all add: creditHit_def creditKill_def)

lemma resolveProjectile_hit:
  assumes f: "firstIndex (hitTest proj) players = Some i"
    and r: "resolveProjectile proj players = (players', proj', evs)"
  shows "length players' = length players
       \<and> proj' = proj\<lparr>active := False\<rparr>
       \<and> length evs = 1
       \<and> (\<forall>k. health (players' ! k)
              = health ((players[i := snd (takeDamage (damage proj) (players ! i))]) ! k))
       \<and> (\<forall>k. alive (players' ! k)
              = alive ((players[i := snd (takeDamage (damage proj) (players ! i))]) ! k))"
  using r unfolding resolveProjectile_def f
  by (auto simp: Let_def creditAt_length creditAt_health creditAt_alive split: prod.splits if_splits)


lemma resolveProjectile_facts:
  assumes r: "resolveProjectile proj players = (players', proj', evs)"
  shows "length players' = length players
       \<and> (\<forall>k<length players. playerId (players ! k) = ownerId proj
             \<longrightarrow> health (players' ! k) = health (players ! k)
               \<and> alive (players' ! k) = alive (players ! k))
       \<and> (\<forall>k<length players. \<forall>l<length players.
             health (players' ! k) \<noteq> health (players ! k)
             \<and> health (players' ! l) \<noteq> health (players ! l) \<longrightarrow> k = l)
       \<and> (case firstIndex (hitTest proj) players of
             None \<Rightarrow> players' = players \<and> proj' = proj \<and> evs = []
           | Some i \<Rightarrow>
               i < length players \<and> hitTest proj (players ! i)
               \<and> (\<forall>j<i. \<not> hitTest proj (players ! j))
               \<and> \<not> active proj' \<and> length evs = 1
               \<and> health (players' ! i) = health (snd (takeDamage (damage proj) (players ! i)))
               \<and> (\<forall>k<length players. k \<noteq> i \<longrightarrow> health (players' ! k) = health (players ! k)
                                                \<and> alive (players' ! k) = alive (players ! k)))"
proof (cases "firstIndex (hitTest proj) players")
  case None
  with r show ?thesis by (simp add: resolveProjectile_def)
next
  case (Some i)
  have fi: "i < length players" "hitTest proj (players ! i)"
    "\<forall>j<i. \<not> hitTest proj (players ! j)"
    using firstIndex_Some[OF Some] by auto
  have len: "length players' = length players"
    and pr: "proj' = proj\<lparr>active := False\<rparr>"
    and ev: "length evs = 1"
    and hl: "\<And>k. health (players' ! k)
              = health ((players[i := snd (takeDamage (damage proj) (players ! i))]) ! k)"
    and al: "\<And>k. alive (players' ! k)
              = alive ((players[i := snd (takeDamage (damage proj) (players ! i))]) ! k)"
    using resolveProjectile_hit[OF Some r] by auto
  have other: "health (players' ! k) = health (players ! k)
             \<and> alive (players' ! k) = alive (players ! k)" if "k \<noteq> i" for k
    using that by (simp add: hl al)
  have own: "playerId (players ! i) \<noteq> ownerId proj"
    using fi(2) by (simp add: hitTest_def)
  have at_i: "health (players' ! i) = health (snd (takeDamage (damage proj) (players ! i)))"
    using fi(1) by (simp add: hl)
  have c1: "\<forall>k<length players. playerId (players ! k) = ownerId proj
             \<longrightarrow> health (players' ! k) = health (players ! k)
               \<and> alive (players' ! k) = alive (players ! k)"
  proof (intro allI impI)
    fix k assume "k < length players" "playerId (players ! k) = ownerId proj"
    then have "k \<noteq> i" using own by auto
    then show "health (players' ! k) = health (players ! k)
               \<and> alive (players' ! k) = alive (players ! k)" by (rule other)
  qed
  have c2: "\<forall>k<length players. \<forall>l<length players.
             health (players' ! k) \<noteq> health (players ! k)
             \<and> health (players' ! l) \<noteq> health (players ! l) \<longrightarrow> k = l"
  proof (intro allI impI)
    fix k l
    assume "health (players' ! k) \<noteq> health (players ! k)
             \<and> health (players' ! l) \<noteq> health (players ! l)"
    then have "k = i" "l = i" using other by blast+
    then show "k = l" by simp
  qed
  have c3: "\<forall>k<length players. k \<noteq> i \<longrightarrow> health (players' ! k) = health (players ! k)
                                                \<and> alive (players' ! k) = alive (players ! k)"
    using other by blast
  have np: "\<not> active proj'" using pr by simp
  show ?thesis
    unfolding Some option.case
    using len c1 c2 fi np ev at_i c3 by blast
qed


lemma creditAt_playerId:
  "(\<And>q. playerId (f q) = playerId q) \<Longrightarrow> playerId (creditAt f a ps ! k) = playerId (ps ! k)"
  by (cases a) (simp_all add: creditAt_def nth_update_field)

lemma credit_keeps_id [simp]:
  "playerId (creditHit d q) = playerId q" "playerId (creditKill q) = playerId q"
  by (simp_all add: creditHit_def creditKill_def)

lemma resolveProjectile_ids:
  assumes r: "resolveProjectile proj players = (players', proj', evs)"
  shows "playerId (players' ! k) = playerId (players ! k)"
proof (cases "firstIndex (hitTest proj) players")
  case None
  with r show ?thesis by (simp add: resolveProjectile_def)
next
  case (Some i)
  have "playerId (players[i := snd (takeDamage (damage proj) (players ! i))] ! k)
        = playerId (players ! k)"
    using nth_update_field[of playerId "\<lambda>q. snd (takeDamage (damage proj) q)" players i k]
    by (simp add: takeDamage_keeps_id)
  with r show ?thesis
    unfolding resolveProjectile_def Some
    by (auto simp: Let_def creditAt_playerId split: prod.splits if_splits)
qed

lemma projectilesVsPlayers_owner:
  assumes "projectilesVsPlayers projs ps = (projs', ps', evs)"
  shows "length ps' = length ps
       \<and> (\<forall>k. playerId (ps' ! k) = playerId (ps ! k))
       \<and> length evs \<le> length (filter active projs)
       \<and> ((\<forall>pr\<in>set projs. ownerId pr = ow)
            \<longrightarrow> (\<forall>k<length ps. playerId (ps ! k) = ow \<longrightarrow> health (ps' ! k) = health (ps ! k)))"
  using assms
proof (induction projs arbitrary: projs' ps' evs)
  case Nil
  then show ?case by simp
next
  case (Cons proj rest)
  obtain rest1 ps1 ev1 where t: "projectilesVsPlayers rest ps = (rest1, ps1, ev1)"
    by (cases "projectilesVsPlayers rest ps") auto
  note ih = Cons.IH[OF t]
  show ?case
  proof (cases "active proj")
    case False
    with Cons.prems t have "ps' = ps1" "evs = ev1" by auto
    with ih False show ?thesis by auto
  next
    case True
    obtain ps2 proj1 ev2 where rp: "resolveProjectile proj ps1 = (ps2, proj1, ev2)"
      by (cases "resolveProjectile proj ps1") auto
    from Cons.prems t True rp have e: "ps' = ps2" "evs = ev1 @ ev2" by auto
    note one = resolveProjectile_facts[OF rp]
    have l2: "length ps2 = length ps1" using one by blast
    have ids: "\<And>k. playerId (ps2 ! k) = playerId (ps1 ! k)"
      using resolveProjectile_ids[OF rp] .
    have evl: "length ev2 \<le> 1"
      using one by (cases "firstIndex (hitTest proj) ps1") auto
    have own: "\<forall>k<length ps1. playerId (ps1 ! k) = ownerId proj
                  \<longrightarrow> health (ps2 ! k) = health (ps1 ! k)"
      using one by blast
    show ?thesis
      using ih l2 ids evl own True unfolding e by auto
  qed
qed


text \<open>
  C7. Resolving one projectile against the players leaves the health (and the liveness)
  of every player whose id is the projectile's owner id as it was; it changes the health
  of at most one player; when some player is hit it is the first one in list order that
  is alive, not the owner, not invulnerable and overlapping, the projectile is
  deactivated and exactly one event is emitted, every other player keeps its health.
  Over the whole first phase there is at most one event per active projectile, and when
  all projectiles belong to one owner the phase leaves that owner's health unchanged.
\<close>

theorem projectile_spares_owner_and_hits_at_most_one:
  assumes "resolveProjectile proj players = (players', proj', evs)"
    and "projectilesVsPlayers projs ps = (projs1, ps1, evs1)"
  shows "(length players' = length players
       \<and> (\<forall>k<length players. playerId (players ! k) = ownerId proj
             \<longrightarrow> health (players' ! k) = health (players ! k)
               \<and> alive (players' ! k) = alive (players ! k))
       \<and> (\<forall>k<length players. \<forall>l<length players.
             health (players' ! k) \<noteq> health (players ! k)
             \<and> health (players' ! l) \<noteq> health (players ! l) \<longrightarrow> k = l)
       \<and> (case firstIndex (hitTest proj) players of
             None \<Rightarrow> players' = players \<and> proj' = proj \<and> evs = []
           | Some i \<Rightarrow>
               i < length players \<and> hitTest proj (players ! i)
               \<and> (\<forall>j<i. \<not> hitTest proj (players ! j))
               \<and> \<not> active proj' \<and> length evs = 1
               \<and> health (players' ! i) = health (snd (takeDamage (damage proj) (players ! i)))
               \<and> (\<forall>k<length players. k \<noteq> i \<longrightarrow> health (players' ! k) = health (players ! k)
                                                \<and> alive (players' ! k) = alive (players ! k))))
       \<and> (length ps1 = length ps
       \<and> (\<forall>k. playerId (ps1 ! k) = playerId (ps ! k))
       \<and> length evs1 \<le> length (filter active projs)
       \<and> ((\<forall>pr\<in>set projs. ownerId pr = ow)
            \<longrightarrow> (\<forall>k<length ps. playerId (ps ! k) = ow \<longrightarrow> health (ps1 ! k) = health (ps ! k))))"
  using resolveProjectile_facts[OF assms(1)] projectilesVsPlayers_owner[OF assms(2), of ow]
  by (rule conjI)

text \<open>
  Three players stacked on one point, the first of them the owner of a projectile at
  that very point: the owner keeps 100, the second player drops to 80, the third keeps
  100, and the projectile is spent.
\<close>

theorem projectile_spares_owner_and_hits_at_most_one_witness:
  "firstIndex (hitTest (newProjectile 0 0 500 0 ''host'' ''#00d4ff''))
      [newPlayer ''host'' 0, newPlayer ''p2'' 1, newPlayer ''p3'' 2] = Some 1
   \<and> health (fst (resolveProjectile (newProjectile 0 0 500 0 ''host'' ''#00d4ff'')
        [newPlayer ''host'' 0, newPlayer ''p2'' 1, newPlayer ''p3'' 2]) ! 0) = 100
   \<and> health (fst (resolveProjectile (newProjectile 0 0 500 0 ''host'' ''#00d4ff'')
        [newPlayer ''host'' 0, newPlayer ''p2'' 1, newPlayer ''p3'' 2]) ! 1) = 80
   \<and> health (fst (resolveProjectile (newProjectile 0 0 500 0 ''host'' ''#00d4ff'')
        [newPlayer ''host'' 0, newPlayer ''p2'' 1, newPlayer ''p3'' 2]) ! 2) = 100
   \<and> \<not> active (fst (snd (resolveProjectile (newProjectile 0 0 500 0 ''host'' ''#00d4ff'')
        [newPlayer ''host'' 0, newPlayer ''p2'' 1, newPlayer ''p3'' 2])))
   \<and> health (fst (snd (projectilesVsPlayers [newProjectile 0 0 500 0 ''host'' ''#00d4ff'']
        [newPlayer ''host'' 0, newPlayer ''p2'' 1, newPlayer ''p3'' 2])) ! 0) = 100"
proof -
  let ?pr = "newProjectile 0 0 500 0 ''host'' ''#00d4ff''"
  let ?ps = "[newPlayer ''host'' 0, newPlayer ''p2'' 1, newPlayer ''p3'' 2]"
  let ?r = "resolveProjectile ?pr ?ps"
  let ?v = "projectilesVsPlayers [?pr] ?ps"
  have r: "?r = (fst ?r, fst (snd ?r), snd (snd ?r))" by simp
  have v: "?v = (fst ?v, fst (snd ?v), snd (snd ?v))" by simp
  have fi: "firstIndex (hitTest ?pr) ?ps = Some 1"
    by (simp add: hitTest_def circleCollision_def newProjectile_def newPlayer_def Let_def)
  have td: "health (snd (takeDamage (damage ?pr) (?ps ! 1))) = 80"
    by (simp add: takeDamage_def newProjectile_def newPlayer_def Let_def)
  have h0: "health (?ps ! 0) = 100" "health (?ps ! 2) = 100" "playerId (?ps ! 0) = ''host''"
    by (simp_all add: newPlayer_def)
  have ow: "\<forall>pr\<in>set [?pr]. ownerId pr = ''host''" by (simp add: newProjectile_def)
  note t = projectile_spares_owner_and_hits_at_most_one[OF r v, of "''host''"]
  have a0: "health (fst ?r ! 0) = health (?ps ! 0)"
    and a2: "health (fst ?r ! 2) = health (?ps ! 2)"
    and a1: "health (fst ?r ! 1) = health (snd (takeDamage (damage ?pr) (?ps ! 1)))"
    and na: "\<not> active (fst (snd ?r))"
    using t unfolding fi option.case by auto
  have b0: "health (fst (snd ?v) ! 0) = health (?ps ! 0)"
    using t ow h0(3) by auto
  show ?thesis using fi a0 a1 a2 na b0 td h0 by simp
qed

section \<open>Meteorites: collisions, expiry and events\<close>

lemma cleanup_meteorites:
  "filter active (fst (meteoritesVsPlanets mets planets))
   = filter (\<lambda>met. active met \<and> \<not> hitsPlanet met planets) mets"
  by (induction mets) (simp_all add: meteoritesVsPlanets_def)

lemma collisionUpdate_meteorites:
  "snd (snd (snd (collisionUpdate players projs mets planets)))
   = filter (\<lambda>met. active met \<and> \<not> hitsPlanet met planets) mets"
  using cleanup_meteorites[of mets planets]
  by (auto simp: collisionUpdate_def Let_def split: prod.splits)

lemma updateMeteorite_active:
  "active (updateMeteorite dt m) = (active m \<and> age m + dt < lifetime m)"
  by (auto simp: updateMeteorite_def Let_def)

lemma meteoriteVsPlayers_explicit:
  "meteoriteVsPlayers met players
   = (map (\<lambda>p. if meteoriteHits met p then snd (takeDamage (damage met) p) else p) players,
      concat (map (\<lambda>p. if meteoriteHits met p \<and> fst (takeDamage (damage met) p)
                        then [Kill ''__meteorite'' (playerId p) (Some meteoriteKillerName) (name p)]
                        else []) players))"
proof (induction players)
  case Nil
  show ?case by simp
next
  case (Cons p ps)
  show ?case
    by (simp add: Cons.IH meteoriteHits_def Let_def split: prod.splits)
       (auto simp: takeDamage_def Let_def)
qed

lemma meteoriteVsPlayers_events:
  "\<forall>e\<in>set (snd (meteoriteVsPlayers met players)). isMeteoriteKill e"
  by (simp add: meteoriteVsPlayers_explicit isMeteoriteKill_def)

lemma meteoritesVsPlayers_events:
  "\<forall>e\<in>set (snd (meteoritesVsPlayers mets players)). isMeteoriteKill e"
proof (induction mets arbitrary: players)
  case Nil
  show ?case by simp
next
  case (Cons met mets)
  show ?case
    using meteoriteVsPlayers_events[of met players] Cons.IH
    by (auto simp: Let_def split: prod.splits) (metis snd_conv)+
qed


text \<open>
  C3 (as amended). After \<open>CollisionSystem.update\<close> the meteorite collection holds
  exactly the meteorites that were active and do not touch a planet, unchanged; the
  meteorite's own \<open>update\<close> leaves it active exactly when it was active and its age stays
  below its lifetime. A meteorite damages every alive, non-invulnerable player it
  overlaps and is not deactivated by that; it emits one kill event, with the killer id
  \<open>__meteorite\<close>, for each such player that dies of the damage, and no event otherwise.
  Every event of the meteorite-player phase is such a kill.
\<close>

theorem meteorite_lifecycle:
  "snd (snd (snd (collisionUpdate players projs mets planets)))
     = filter (\<lambda>met. active met \<and> \<not> hitsPlanet met planets) mets
   \<and> active (updateMeteorite dt m) = (active m \<and> age m + dt < lifetime m)
   \<and> meteoriteVsPlayers met players
     = (map (\<lambda>p. if meteoriteHits met p then snd (takeDamage (damage met) p) else p) players,
        concat (map (\<lambda>p. if meteoriteHits met p \<and> fst (takeDamage (damage met) p)
                          then [Kill ''__meteorite'' (playerId p) (Some meteoriteKillerName) (name p)]
                          else []) players))
   \<and> (\<forall>e\<in>set (snd (meteoritesVsPlayers mets players)). isMeteoriteKill e)"
  using collisionUpdate_meteorites[of players projs mets planets]
    updateMeteorite_active[of dt m]
    meteoriteVsPlayers_explicit[of met players]
    meteoritesVsPlayers_events[of mets players]
  by blast

text \<open>
  A meteorite on top of a player with 40 health kills it and emits the kill; on top of a
  player with full health it emits nothing.
\<close>

theorem meteorite_lifecycle_witness:
  "snd (meteoritesVsPlayers [newMeteorite (\<lambda>n. 0) 0 0 0 0 15]
          [(newPlayer ''host'' 0)\<lparr>health := 40\<rparr>])
     = [Kill ''__meteorite'' ''host'' (Some meteoriteKillerName) ''Player 1'']
   \<and> isMeteoriteKill (Kill ''__meteorite'' ''host'' (Some meteoriteKillerName) ''Player 1'')
   \<and> snd (meteoritesVsPlayers [newMeteorite (\<lambda>n. 0) 0 0 0 0 15] [newPlayer ''host'' 0]) = []"
proof -
  let ?m = "newMeteorite (\<lambda>n. 0) 0 0 0 0 15"
  let ?p = "(newPlayer ''host'' 0)\<lparr>health := 40\<rparr>"
  have hit: "meteoriteHits ?m ?p" "meteoriteHits ?m (newPlayer ''host'' 0)"
    by (simp_all add: meteoriteHits_def circleCollision_def newMeteorite_def newPlayer_def Let_def)
  have died: "fst (takeDamage (damage ?m) ?p)" "\<not> fst (takeDamage (damage ?m) (newPlayer ''host'' 0))"
    by (simp_all add: takeDamage_def newMeteorite_def newPlayer_def Let_def)
  have act: "active ?m" by (simp add: newMeteorite_def Let_def)
  have nm: "playerId ?p = ''host''" "name ?p = ''Player 1''"
    by (simp_all add: newPlayer_def PLAYER_NAMES_DEFAULT_def)
  have e1: "snd (meteoritesVsPlayers [?m] [?p])
     = [Kill ''__meteorite'' ''host'' (Some meteoriteKillerName) ''Player 1'']"
    using meteorite_lifecycle[where met = ?m and players = "[?p]"] hit died act nm
    by (simp add: Let_def split: prod.splits)
  have e2: "snd (meteoritesVsPlayers [?m] [newPlayer ''host'' 0]) = []"
    using meteorite_lifecycle[where met = ?m and players = "[newPlayer ''host'' 0]"] hit died act
    by (simp add: Let_def split: prod.splits)
  have k: "isMeteoriteKill (Kill ''__meteorite'' ''host'' (Some meteoriteKillerName) ''Player 1'')"
    using meteorite_lifecycle[where mets = "[?m]" and players = "[?p]"] e1 by simp
  show ?thesis using e1 e2 k by blast
qed

text \<open>
  A fresh meteorite on top of a player, no planet near: the two overlap, the player is
  damaged, and the meteorite is still in the collection, active, after the update.
\<close>

theorem meteorite_destroyed_on_collision_counterexample:
  "circleCollision 0 0 15 0 0 (12 + 2)
   \<and> health (hd (fst (snd (collisionUpdate [newPlayer ''host'' 0] []
                             [newMeteorite (\<lambda>n. 0) 0 0 0 0 15] [])))) = 50
   \<and> snd (snd (snd (collisionUpdate [newPlayer ''host'' 0] []
                             [newMeteorite (\<lambda>n. 0) 0 0 0 0 15] [])))
     = [newMeteorite (\<lambda>n. 0) 0 0 0 0 15]
   \<and> active (newMeteorite (\<lambda>n. 0) 0 0 0 0 15)
   \<and> age (newMeteorite (\<lambda>n. 0) 0 0 0 0 15) < lifetime (newMeteorite (\<lambda>n. 0) 0 0 0 0 15)"
proof -
  let ?m = "newMeteorite (\<lambda>n. 0) 0 0 0 0 15"
  have act: "active ?m" "age ?m < lifetime ?m" "damage ?m = 50" "x ?m = 0" "y ?m = 0" "radius ?m = 15"
    by (simp_all add: newMeteorite_def Let_def)
  have cc: "circleCollision 0 0 15 0 0 (12 + 2)" by (simp add: circleCollision_def)
  have mp: "meteoriteVsPlayers ?m [newPlayer ''host'' 0]
            = ([snd (takeDamage 50 (newPlayer ''host'' 0))], [])"
    using cc act by (simp add: newPlayer_def takeDamage_def Let_def)
  have td: "health (snd (takeDamage 50 (newPlayer ''host'' 0))) = 50"
    by (simp add: newPlayer_def takeDamage_def Let_def)
  have cu: "collisionUpdate [newPlayer ''host'' 0] [] [?m] []
            = ([], [snd (takeDamage 50 (newPlayer ''host'' 0))], [], [?m])"
    using act(1) mp
    by (simp add: collisionUpdate_def projectilesVsPlanets_def meteoritesVsPlanets_def
        hitsPlanet_def Let_def)
  show ?thesis using cc act td by (simp add: cu)
qed

section \<open>The meteorite spawner\<close>

lemma hazardUpdate_state:
  "gameTime (fst (hazardUpdate rnd dt mets hs)) = gameTime hs + dt
   \<and> showerActive (fst (hazardUpdate rnd dt mets hs))
       = (if showerTimer hs + dt \<ge> showerInterval hs then dt < showerDuration hs
          else showerActive hs \<and> showerElapsed hs + dt < showerDuration hs)
   \<and> showerTimer (fst (hazardUpdate rnd dt mets hs))
       = (if showerTimer hs + dt \<ge> showerInterval hs then 0 else showerTimer hs + dt)
   \<and> minInterval (fst (hazardUpdate rnd dt mets hs)) = minInterval hs
   \<and> baseInterval (fst (hazardUpdate rnd dt mets hs)) = baseInterval hs
   \<and> escalationRate (fst (hazardUpdate rnd dt mets hs)) = escalationRate hs"
  by (auto simp: hazardUpdate_def Let_def)

lemma hazardUpdate_timer:
  "spawnTimer (fst (hazardUpdate rnd dt mets hs))
     = (if spawnTimer hs - dt \<le> 0
        then effectiveIntervalSpec hs (gameTime hs + dt)
               (showerActive (fst (hazardUpdate rnd dt mets hs)))
        else spawnTimer hs - dt)"
  by (auto simp: hazardUpdate_def Let_def effectiveIntervalSpec_def)

lemma hazardUpdate_meteorites:
  "snd (hazardUpdate rnd dt mets hs)
     = (if spawnTimer hs - dt \<le> 0 \<and> \<not> length mets > 15
        then mets @ [last (snd (hazardUpdate rnd dt mets hs))]
        else mets)
   \<and> (spawnTimer hs - dt \<le> 0 \<and> \<not> length mets > 15
        \<longrightarrow> active (last (snd (hazardUpdate rnd dt mets hs)))
            \<and> age (last (snd (hazardUpdate rnd dt mets hs))) = 0)"
  by (auto simp: hazardUpdate_def Let_def spawnMeteorite_def newMeteorite_def)

lemma hazardUpdate_memoryless:
  "fst (hazardUpdate rnd dt mets hs) = fst (hazardUpdate rnd2 dt mets2 hs)"
  by (simp add: hazardUpdate_def Let_def)

lemma effectiveIntervalSpec_floor:
  "effectiveIntervalSpec hs elapsed False \<ge> minInterval hs"
  "effectiveIntervalSpec hs elapsed True = 0.3"
  by (simp_all add: effectiveIntervalSpec_def)


text \<open>
  C9. After \<open>update\<close>: when the spawn timer, less \<open>dt\<close>, has run out, the timer is
  reset to the effective interval, which is 0.3 while the shower is active and otherwise
  the larger of the floor and \<open>base - elapsed * rate\<close>, so never below the floor; a
  meteorite, active and of age 0, is appended unless the collection already holds more
  than 15, in which case the collection is unchanged. When the timer has not run out
  the collection is unchanged. The shower starts when its own timer reaches its period
  and lasts while its elapsed time is below its duration. The new state of the spawner
  does not depend on the meteorite collection or on the random draws, so a dropped spawn
  leaves no trace: nothing is deferred or queued.
\<close>

theorem hazard_spawn_schedule:
  "spawnTimer (fst (hazardUpdate rnd dt mets hs))
     = (if spawnTimer hs - dt \<le> 0
        then effectiveIntervalSpec hs (gameTime hs + dt)
               (showerActive (fst (hazardUpdate rnd dt mets hs)))
        else spawnTimer hs - dt)
   \<and> effectiveIntervalSpec hs elapsed False \<ge> minInterval hs
   \<and> effectiveIntervalSpec hs elapsed True = 0.3
   \<and> gameTime (fst (hazardUpdate rnd dt mets hs)) = gameTime hs + dt
   \<and> showerActive (fst (hazardUpdate rnd dt mets hs))
       = (if showerTimer hs + dt \<ge> showerInterval hs then dt < showerDuration hs
          else showerActive hs \<and> showerElapsed hs + dt < showerDuration hs)
   \<and> showerTimer (fst (hazardUpdate rnd dt mets hs))
       = (if showerTimer hs + dt \<ge> showerInterval hs then 0 else showerTimer hs + dt)
   \<and> snd (hazardUpdate rnd dt mets hs)
       = (if spawnTimer hs - dt \<le> 0 \<and> \<not> length mets > 15
          then mets @ [last (snd (hazardUpdate rnd dt mets hs))]
          else mets)
   \<and> (spawnTimer hs - dt \<le> 0 \<and> \<not> length mets > 15
        \<longrightarrow> active (last (snd (hazardUpdate rnd dt mets hs)))
            \<and> age (last (snd (hazardUpdate rnd dt mets hs))) = 0)
   \<and> fst (hazardUpdate rnd dt mets hs) = fst (hazardUpdate rnd2 dt mets2 hs)"
  using hazardUpdate_timer[of rnd dt mets hs] effectiveIntervalSpec_floor[of hs elapsed]
    hazardUpdate_state[of rnd dt mets hs] hazardUpdate_meteorites[of rnd dt mets hs]
    hazardUpdate_memoryless[of rnd dt mets hs rnd2 mets2]
  by blast

text \<open>
  The first tick of a match spawns and sets the timer a little under 4 s; a tick that
  starts a shower sets it to 0.3 s; late in the match the floor of 1 s applies; with 16
  meteorites present the spawn is dropped.
\<close>

theorem hazard_spawn_schedule_witness:
  "spawnTimer (fst (hazardUpdate (\<lambda>n. 0) (1 / 60) [] newHazardSystem)) = 4 - 1 / 1200
   \<and> length (snd (hazardUpdate (\<lambda>n. 0) (1 / 60) [] newHazardSystem)) = 1
   \<and> active (last (snd (hazardUpdate (\<lambda>n. 0) (1 / 60) [] newHazardSystem)))
   \<and> spawnTimer (fst (hazardUpdate (\<lambda>n. 0) (1 / 60) []
                        (newHazardSystem\<lparr>showerTimer := 30, gameTime := 30\<rparr>))) = 0.3
   \<and> spawnTimer (fst (hazardUpdate (\<lambda>n. 0) (1 / 60) []
                        (newHazardSystem\<lparr>gameTime := 100\<rparr>))) = 1
   \<and> snd (hazardUpdate (\<lambda>n. 0) (1 / 60)
             (replicate 16 (newMeteorite (\<lambda>n. 0) 800 0 0 0 15)) newHazardSystem)
       = replicate 16 (newMeteorite (\<lambda>n. 0) 800 0 0 0 15)"
proof -
  let ?h = newHazardSystem
  let ?ms = "replicate 16 (newMeteorite (\<lambda>n. 0) 800 0 0 0 15)"
  note a = hazard_spawn_schedule[of "\<lambda>n. 0" "1 / 60" "[]" ?h 0 "\<lambda>n. 0" "[]"]
  note b = hazard_spawn_schedule[of "\<lambda>n. 0" "1 / 60" "[]"
             "?h\<lparr>showerTimer := 30, gameTime := 30\<rparr>" 0 "\<lambda>n. 0" "[]"]
  note c = hazard_spawn_schedule[of "\<lambda>n. 0" "1 / 60" "[]" "?h\<lparr>gameTime := 100\<rparr>" 0 "\<lambda>n. 0" "[]"]
  note d = hazard_spawn_schedule[of "\<lambda>n. 0" "1 / 60" ?ms ?h 0 "\<lambda>n. 0" "[]"]
  have a1: "spawnTimer (fst (hazardUpdate (\<lambda>n. 0) (1 / 60) [] ?h)) = 4 - 1 / 1200"
    using a by (simp add: newHazardSystem_def effectiveIntervalSpec_def)
  have a2: "length (snd (hazardUpdate (\<lambda>n. 0) (1 / 60) [] ?h)) = 1"
    "active (last (snd (hazardUpdate (\<lambda>n. 0) (1 / 60) [] ?h)))"
  proof -
    have g: "spawnTimer ?h - 1 / 60 \<le> 0 \<and> \<not> length ([] :: meteorite list) > 15"
      by (simp add: newHazardSystem_def)
    from a g have e: "snd (hazardUpdate (\<lambda>n. 0) (1 / 60) [] ?h)
        = [] @ [last (snd (hazardUpdate (\<lambda>n. 0) (1 / 60) [] ?h))]" by presburger
    show "length (snd (hazardUpdate (\<lambda>n. 0) (1 / 60) [] ?h)) = 1"
      by (subst e) simp
    from a g show "active (last (snd (hazardUpdate (\<lambda>n. 0) (1 / 60) [] ?h)))" by blast
  qed
  have b1: "spawnTimer (fst (hazardUpdate (\<lambda>n. 0) (1 / 60) []
                        (?h\<lparr>showerTimer := 30, gameTime := 30\<rparr>))) = 0.3"
    using b by (simp add: newHazardSystem_def effectiveIntervalSpec_def)
  have c1: "spawnTimer (fst (hazardUpdate (\<lambda>n. 0) (1 / 60) [] (?h\<lparr>gameTime := 100\<rparr>))) = 1"
    using c by (simp add: newHazardSystem_def effectiveIntervalSpec_def)
  have d1: "snd (hazardUpdate (\<lambda>n. 0) (1 / 60) ?ms ?h) = ?ms"
    using d by simp
  show ?thesis using a1 a2 b1 c1 d1 by blast
qed

section \<open>Firing the shotgun\<close>

lemma sqrt_one_plus_ratio:
  assumes "a \<noteq> 0"
  shows "sqrt (1 + (b / a)\<^sup>2) = sqrt (a * a + b * b) / \<bar>a\<bar>"
proof -
  have "1 + (b / a)\<^sup>2 = (a * a + b * b) / (a * a)"
    using assms by (simp add: power2_eq_square field_simps)
  then have "sqrt (1 + (b / a)\<^sup>2) = sqrt (a * a + b * b) / sqrt (a * a)"
    by (simp add: real_sqrt_divide)
  then show ?thesis by simp
qed

lemma cos_sin_arctan_ratio:
  assumes "a \<noteq> 0"
  shows "cos (arctan (b / a)) = \<bar>a\<bar> / sqrt (a * a + b * b)"
    and "sin (arctan (b / a)) = (b / a) * \<bar>a\<bar> / sqrt (a * a + b * b)"
  using assms by (simp_all add: cos_arctan sin_arctan sqrt_one_plus_ratio)

lemma atan2_direction:
  assumes "a \<noteq> 0 \<or> b \<noteq> 0"
  shows "cos (atan2 b a) = a / sqrt (a * a + b * b) \<and> sin (atan2 b a) = b / sqrt (a * a + b * b)"
proof (cases "a > 0")
  case True
  then show ?thesis
    using cos_sin_arctan_ratio[of a b] by (simp add: atan2_def)
next
  case False
  show ?thesis
  proof (cases "a < 0")
    case True
    then have "a \<noteq> 0" by simp
    note cs = cos_sin_arctan_ratio[OF this, of b]
    show ?thesis
      using True cs by (simp add: atan2_def)
  next
    case False
    with \<open>\<not> a > 0\<close> have z: "a = 0" by simp
    with assms have "b \<noteq> 0" by simp
    then show ?thesis
      using z by (auto simp: atan2_def real_sqrt_abs2 abs_if)
  qed
qed


lemma shotgun_profile:
  "weaponProfileOf newWeaponSystem p ''SHOTGUN''
   = \<lparr>wPelletCount = 7, wSpreadAngle = pi / 4, wPelletSpeed = 1200, wColor = color p,
      wDamage = 15, wRadius = 2, wLifetime = 1.5, wRecoilForce = 150, wCooldown = 0.35\<rparr>"
  by (simp add: weaponProfileOf_def newWeaponSystem_def)

lemma shotgun_pellet:
  "i < 7 \<Longrightarrow>
   pellet rnd (weaponProfileOf newWeaponSystem p ''SHOTGUN'') (playerId p) mx my aim i
   = (newProjectile mx my
        (cos (pelletBaseAngle aim i + angleJitter rnd i) * (1200 + speedJitter rnd i))
        (sin (pelletBaseAngle aim i + angleJitter rnd i) * (1200 + speedJitter rnd i))
        (playerId p) (color p))
     \<lparr>damage := 15, radius := 2, lifetime := 1.5\<rparr>"
  by (simp add: shotgun_profile pellet_def pelletAngle_def pelletBaseAngle_def angleJitter_def
      speedJitter_def Let_def field_simps)

lemma fire_shotgun:
  assumes "alive p" "shootCooldown p \<le> 0"
    "currentWeapon p = None \<or> currentWeapon p = Some ''SHOTGUN''"
  shows "fire rnd newWeaponSystem p tx ty
   = (map (pellet rnd (weaponProfileOf newWeaponSystem p ''SHOTGUN'') (playerId p)
             (x p + cos (atan2 (ty - y p) (tx - x p)) * 30)
             (y p + sin (atan2 (ty - y p) (tx - x p)) * 30)
             (atan2 (ty - y p) (tx - x p))) [0..<7],
      p\<lparr>shootCooldownMax := 0.35, shootCooldown := 0.35, shotsFired := shotsFired p + 1,
        vx := vx p - cos (atan2 (ty - y p) (tx - x p)) * 150,
        vy := vy p - sin (atan2 (ty - y p) (tx - x p)) * 150\<rparr>)"
proof -
  have w: "(case currentWeapon p of None \<Rightarrow> ''SHOTGUN''
            | Some w \<Rightarrow> if w = [] then ''SHOTGUN'' else w) = ''SHOTGUN''"
    using assms(3) by auto
  have c: "canShoot p" using assms by (simp add: canShoot_def)
  have prof: "weaponProfileOf newWeaponSystem (p\<lparr>shootCooldownMax := c1\<rparr>) ''SHOTGUN''
            = weaponProfileOf newWeaponSystem p ''SHOTGUN''" for c1
    by (simp add: weaponProfileOf_def)
  have mo: "muzzleOffset newWeaponSystem = 30" by (simp add: newWeaponSystem_def)
  show ?thesis
    unfolding fire_def w Let_def using c
    by (simp add: prof shotgun_profile mo)
qed

lemma recoil_magnitude: "lengthV \<lparr>x = - (cos a * 150), y = - (sin a * 150)\<rparr> = 150"
proof -
  have u: "lengthV \<lparr>x = - cos a, y = - sin a\<rparr> = 1"
    by (simp add: lengthV_def)
  have "lengthV \<lparr>x = (- cos a) * 150, y = (- sin a) * 150\<rparr>
        = lengthV \<lparr>x = - cos a, y = - sin a\<rparr> * \<bar>150\<bar>"
    by (rule lengthV_scale)
  then show ?thesis using u by simp
qed

text \<open>
  C5. For an alive player whose cooldown has elapsed and whose weapon is the default
  shotgun, \<open>fire\<close> returns 7 projectiles. Pellet \<open>i\<close> starts at the muzzle, 30 units from
  the player along the aim direction, and flies at the base angle of its slot plus the
  angle jitter, with speed 1200 plus the speed jitter; its damage is 15. The base angles
  run from the aim direction less 22.5 degrees to the aim direction plus 22.5 degrees in
  six equal steps, the middle one on the aim direction itself; with random numbers in
  [0, 1) the jitters are at most 0.025 rad and 25 units/s. The aim direction is the unit
  vector from the player to the target. The call leaves the cooldown at 0.35, adds one
  to the shots fired, and subtracts from the velocity 150 times the aim direction.
\<close>

theorem shotgun_fire:
  assumes "alive p" and "shootCooldown p \<le> 0"
    and "currentWeapon p = None \<or> currentWeapon p = Some ''SHOTGUN''"
  shows "let aim = atan2 (ty - y p) (tx - x p);
             projs = fst (fire rnd newWeaponSystem p tx ty);
             p' = snd (fire rnd newWeaponSystem p tx ty)
         in length projs = 7
          \<and> (\<forall>i<7. projs ! i = shotgunPellet rnd p aim i)
          \<and> (\<forall>i<7. damage (projs ! i) = 15 \<and> ownerId (projs ! i) = playerId p
                     \<and> active (projs ! i))
          \<and> pelletBaseAngle aim 0 = aim - pi / 8
          \<and> pelletBaseAngle aim 3 = aim
          \<and> pelletBaseAngle aim 6 = aim + pi / 8
          \<and> (\<forall>i. pelletBaseAngle aim (Suc i) - pelletBaseAngle aim i = (pi / 4) / 6)
          \<and> ((\<forall>n. 0 \<le> rnd n \<and> rnd n < 1)
               \<longrightarrow> (\<forall>i. \<bar>angleJitter rnd i\<bar> \<le> 0.025 \<and> \<bar>speedJitter rnd i\<bar> \<le> 25))
          \<and> (tx \<noteq> x p \<or> ty \<noteq> y p
               \<longrightarrow> cos aim = (tx - x p) / distTo \<lparr>x = tx, y = ty\<rparr> (posOf p)
                 \<and> sin aim = (ty - y p) / distTo \<lparr>x = tx, y = ty\<rparr> (posOf p))
          \<and> shootCooldown p' = 0.35
          \<and> shotsFired p' = shotsFired p + 1
          \<and> vx p' = vx p - cos aim * 150
          \<and> vy p' = vy p - sin aim * 150
          \<and> lengthV \<lparr>x = vx p' - vx p, y = vy p' - vy p\<rparr> = 150"
proof -
  define aim where "aim = atan2 (ty - y p) (tx - x p)"
  note f = fire_shotgun[OF assms, of rnd tx ty, folded aim_def]
  have len: "length (fst (fire rnd newWeaponSystem p tx ty)) = 7" by (simp add: f)
  have nth: "fst (fire rnd newWeaponSystem p tx ty) ! i = shotgunPellet rnd p aim i" if "i < 7" for i
    using that by (simp add: f shotgun_pellet shotgunPellet_def del: upt_Suc)
  have fields: "damage (shotgunPellet rnd p aim i) = 15 \<and> ownerId (shotgunPellet rnd p aim i) = playerId p
     \<and> active (shotgunPellet rnd p aim i)" for i
    by (simp add: shotgunPellet_def newProjectile_def)
  have arc: "pelletBaseAngle aim 0 = aim - pi / 8" "pelletBaseAngle aim 3 = aim"
    "pelletBaseAngle aim 6 = aim + pi / 8"
    "\<forall>i. pelletBaseAngle aim (Suc i) - pelletBaseAngle aim i = (pi / 4) / 6"
    by (simp_all add: pelletBaseAngle_def algebra_simps)
  have jit: "\<bar>angleJitter rnd i\<bar> \<le> 0.025 \<and> \<bar>speedJitter rnd i\<bar> \<le> 25"
    if "\<forall>n. 0 \<le> rnd n \<and> rnd n < 1" for i
  proof -
    have "0 \<le> rnd (2 * i) \<and> rnd (2 * i) < 1" "0 \<le> rnd (2 * i + 1) \<and> rnd (2 * i + 1) < 1"
      using that by blast+
    then show ?thesis by (simp add: angleJitter_def speedJitter_def abs_if)
  qed
  have dir: "cos aim = (tx - x p) / distTo \<lparr>x = tx, y = ty\<rparr> (posOf p)
           \<and> sin aim = (ty - y p) / distTo \<lparr>x = tx, y = ty\<rparr> (posOf p)"
    if "tx \<noteq> x p \<or> ty \<noteq> y p"
    using that atan2_direction[of "tx - x p" "ty - y p"]
    by (simp add: aim_def distTo_def subV_def posOf_def lengthV_def)
  have st: "shootCooldown (snd (fire rnd newWeaponSystem p tx ty)) = 0.35"
    "shotsFired (snd (fire rnd newWeaponSystem p tx ty)) = shotsFired p + 1"
    "vx (snd (fire rnd newWeaponSystem p tx ty)) = vx p - cos aim * 150"
    "vy (snd (fire rnd newWeaponSystem p tx ty)) = vy p - sin aim * 150"
    by (simp_all add: f)
  have mag: "lengthV \<lparr>x = vx (snd (fire rnd newWeaponSystem p tx ty)) - vx p,
                      y = vy (snd (fire rnd newWeaponSystem p tx ty)) - vy p\<rparr> = 150"
    using recoil_magnitude[of aim] by (simp add: st)
  show ?thesis
    unfolding Let_def aim_def[symmetric]
    using len nth fields arc jit dir st mag by auto
qed


text \<open>
  A fresh player at the origin fires at the point (100, 0) with no jitter: seven
  pellets, the middle one leaving the muzzle at (30, 0) with velocity (1200, 0); the
  shooter recoils to velocity (-150, 0).
\<close>

theorem shotgun_fire_witness:
  "length (fst (fire (\<lambda>n. 1 / 2) newWeaponSystem (newPlayer ''host'' 0) 100 0)) = 7
   \<and> fst (fire (\<lambda>n. 1 / 2) newWeaponSystem (newPlayer ''host'' 0) 100 0) ! 3
     = (newProjectile 30 0 1200 0 ''host'' ''#00d4ff'')\<lparr>damage := 15, radius := 2, lifetime := 1.5\<rparr>
   \<and> shootCooldown (snd (fire (\<lambda>n. 1 / 2) newWeaponSystem (newPlayer ''host'' 0) 100 0)) = 0.35
   \<and> shotsFired (snd (fire (\<lambda>n. 1 / 2) newWeaponSystem (newPlayer ''host'' 0) 100 0)) = 1
   \<and> vx (snd (fire (\<lambda>n. 1 / 2) newWeaponSystem (newPlayer ''host'' 0) 100 0)) = - 150
   \<and> vy (snd (fire (\<lambda>n. 1 / 2) newWeaponSystem (newPlayer ''host'' 0) 100 0)) = 0"
proof -
  let ?p = "newPlayer ''host'' 0"
  let ?f = "fire (\<lambda>n. 1 / 2) newWeaponSystem ?p 100 0"
  have h: "alive ?p" "shootCooldown ?p \<le> 0"
    "currentWeapon ?p = None \<or> currentWeapon ?p = Some ''SHOTGUN''"
    by (simp_all add: newPlayer_def)
  have aim: "atan2 (0 - y ?p) (100 - x ?p) = 0"
    by (simp add: atan2_def newPlayer_def)
  note t = shotgun_fire[where p = ?p and tx = 100 and ty = 0 and rnd = "\<lambda>n. 1 / 2",
      OF h, unfolded Let_def aim]
  have l: "length (fst ?f) = 7" using t by blast
  have "\<forall>i<7. fst ?f ! i = shotgunPellet (\<lambda>n. 1 / 2) ?p 0 i" using t by blast
  then have "fst ?f ! 3 = shotgunPellet (\<lambda>n. 1 / 2) ?p 0 3" by simp
  then have n3: "fst ?f ! 3
     = (newProjectile 30 0 1200 0 ''host'' ''#00d4ff'')\<lparr>damage := 15, radius := 2, lifetime := 1.5\<rparr>"
    by (simp add: shotgunPellet_def pelletBaseAngle_def angleJitter_def speedJitter_def
        newPlayer_def PLAYER_COLORS_def)
  have st: "shootCooldown (snd ?f) = 0.35" "shotsFired (snd ?f) = shotsFired ?p + 1"
    "vx (snd ?f) = vx ?p - cos 0 * 150" "vy (snd ?f) = vy ?p - sin 0 * 150"
    using t by blast+
  show ?thesis using l n3 st by (simp add: newPlayer_def)
qed

section \<open>Round trips through the wire forms\<close>

lemma js_round_err: "\<bar>js_round v - v\<bar> \<le> 1 / 2"
  unfolding js_round_def by linarith

lemma js_round_int [simp]: "js_round (of_int n) = of_int n"
  unfolding js_round_def by (simp add: floor_unique)

lemma js_round_idem [simp]: "js_round (js_round v) = js_round v"
  by (simp add: js_round_def floor_unique)

lemma round1_err: "\<bar>round1 v - v\<bar> \<le> 1 / 20"
  using js_round_err[of "v * 10"] by (simp add: round1_def field_simps abs_le_iff)

lemma round2_err: "\<bar>round2 v - v\<bar> \<le> 1 / 200"
  using js_round_err[of "v * 100"] by (simp add: round2_def field_simps abs_le_iff)

lemma round1_idem [simp]: "round1 (round1 v) = round1 v"
  by (simp add: round1_def js_round_def floor_unique)

lemma round2_idem [simp]: "round2 (round2 v) = round2 v"
  by (simp add: round2_def js_round_def floor_unique)

lemma player_roundtrip_exact:
  "playerId (playerFromSerialized (serializePlayer p)) = playerId p
   \<and> index (playerFromSerialized (serializePlayer p)) = index p
   \<and> name (playerFromSerialized (serializePlayer p)) = name p
   \<and> color (playerFromSerialized (serializePlayer p)) = color p
   \<and> isGrounded (playerFromSerialized (serializePlayer p)) = isGrounded p
   \<and> facingLeft (playerFromSerialized (serializePlayer p)) = facingLeft p
   \<and> health (playerFromSerialized (serializePlayer p)) = health p
   \<and> alive (playerFromSerialized (serializePlayer p)) = alive p
   \<and> kills (playerFromSerialized (serializePlayer p)) = kills p
   \<and> deaths (playerFromSerialized (serializePlayer p)) = deaths p
   \<and> invulnerable (playerFromSerialized (serializePlayer p)) = (if invulnerable p > 0 then 1 else 0)"
  by (simp add: playerFromSerialized_def serializePlayer_def applyState_def newPlayer_def)

lemma player_roundtrip_rounded:
  "x (playerFromSerialized (serializePlayer p)) = round1 (x p)
   \<and> y (playerFromSerialized (serializePlayer p)) = round1 (y p)
   \<and> vx (playerFromSerialized (serializePlayer p)) = round1 (vx p)
   \<and> vy (playerFromSerialized (serializePlayer p)) = round1 (vy p)
   \<and> surfaceAngle (playerFromSerialized (serializePlayer p)) = round2 (surfaceAngle p)
   \<and> moveX (playerFromSerialized (serializePlayer p)) = round2 (moveX p)
   \<and> damageFlash (playerFromSerialized (serializePlayer p)) = round2 (damageFlash p)
   \<and> respawnTimer (playerFromSerialized (serializePlayer p)) = round2 (respawnTimer p)"
  by (simp add: playerFromSerialized_def serializePlayer_def applyState_def newPlayer_def)

lemma player_roundtrip_idem:
  "playerFromSerialized (serializePlayer (playerFromSerialized (serializePlayer p)))
   = playerFromSerialized (serializePlayer p)"
  by (simp add: playerFromSerialized_def serializePlayer_def applyState_def newPlayer_def)

lemma projectile_roundtrip:
  "x (projectileFromSerialized (serializeProjectile q)) = js_round (x q)
   \<and> y (projectileFromSerialized (serializeProjectile q)) = js_round (y q)
   \<and> vx (projectileFromSerialized (serializeProjectile q)) = js_round (vx q)
   \<and> vy (projectileFromSerialized (serializeProjectile q)) = js_round (vy q)
   \<and> age (projectileFromSerialized (serializeProjectile q)) = round2 (age q)
   \<and> ownerId (projectileFromSerialized (serializeProjectile q)) = ownerId q
   \<and> projColor (projectileFromSerialized (serializeProjectile q)) = projColor q
   \<and> projectileFromSerialized (serializeProjectile (projectileFromSerialized (serializeProjectile q)))
     = projectileFromSerialized (serializeProjectile q)"
  by (simp add: projectileFromSerialized_def serializeProjectile_def newProjectile_def)

lemma meteorite_roundtrip:
  "x (meteoriteFromSerialized rnd (serializeMeteorite m)) = js_round (x m)
   \<and> y (meteoriteFromSerialized rnd (serializeMeteorite m)) = js_round (y m)
   \<and> vx (meteoriteFromSerialized rnd (serializeMeteorite m)) = js_round (vx m)
   \<and> vy (meteoriteFromSerialized rnd (serializeMeteorite m)) = js_round (vy m)
   \<and> radius (meteoriteFromSerialized rnd (serializeMeteorite m)) = radius m
   \<and> rotation (meteoriteFromSerialized rnd (serializeMeteorite m)) = round2 (rotation m)
   \<and> shape (meteoriteFromSerialized rnd (serializeMeteorite m)) = shape m
   \<and> meteoriteFromSerialized rnd (serializeMeteorite (meteoriteFromSerialized rnd (serializeMeteorite m)))
     = meteoriteFromSerialized rnd (serializeMeteorite m)"
  by (simp add: meteoriteFromSerialized_def serializeMeteorite_def newMeteorite_def Let_def)

lemma pickup_roundtrip:
  "x (pickupFromSerialized rnd (serializePickup k)) = js_round (x k)
   \<and> y (pickupFromSerialized rnd (serializePickup k)) = js_round (y k)
   \<and> pickupId (pickupFromSerialized rnd (serializePickup k)) = pickupId k
   \<and> typeKey (pickupFromSerialized rnd (serializePickup k)) = typeKey k
   \<and> pickupFromSerialized rnd (serializePickup (pickupFromSerialized rnd (serializePickup k)))
     = pickupFromSerialized rnd (serializePickup k)"
  by (simp add: pickupFromSerialized_def serializePickup_def newPickup_def)

lemma closeTo_rounds:
  "closeTo (1 / 20) (round1 v) v" "closeTo (1 / 200) (round2 v) v" "closeTo (1 / 2) (js_round v) v"
  using round1_err[of v] round2_err[of v] js_round_err[of v] by (simp_all add: closeTo_def)

lemma player_roundtrip_defaults:
  "radius (playerFromSerialized (serializePlayer p)) = 12
   \<and> shotsFired (playerFromSerialized (serializePlayer p)) = 0
   \<and> shotsHit (playerFromSerialized (serializePlayer p)) = 0
   \<and> damageDealt (playerFromSerialized (serializePlayer p)) = 0
   \<and> maxHealth (playerFromSerialized (serializePlayer p)) = 100
   \<and> shootCooldown (playerFromSerialized (serializePlayer p)) = 0
   \<and> currentWeapon (playerFromSerialized (serializePlayer p)) = None
   \<and> jumpGraceTimer (playerFromSerialized (serializePlayer p)) = None"
  by (simp add: playerFromSerialized_def serializePlayer_def applyState_def newPlayer_def)

lemma projectile_roundtrip_defaults:
  "damage (projectileFromSerialized (serializeProjectile q)) = 20
   \<and> radius (projectileFromSerialized (serializeProjectile q)) = 3
   \<and> lifetime (projectileFromSerialized (serializeProjectile q)) = 3
   \<and> active (projectileFromSerialized (serializeProjectile q))"
  by (simp add: projectileFromSerialized_def serializeProjectile_def newProjectile_def)

lemma player_roundtrip_record:
  "playerFromSerialized (serializePlayer p)
   = \<lparr>x = round1 (x p), y = round1 (y p), radius = 12,
      vx = round1 (vx p), vy = round1 (vy p),
      playerId = playerId p, index = index p, name = name p, color = color p,
      isGrounded = isGrounded p, groundedPlanetIndex = - 1,
      surfaceAngle = round2 (surfaceAngle p), moveX = round2 (moveX p),
      facingLeft = facingLeft p, aimAngle = 0,
      health = health p, maxHealth = 100, alive = alive p,
      kills = kills p, deaths = deaths p,
      shotsFired = 0, shotsHit = 0, damageDealt = 0,
      shootCooldown = 0, shootCooldownMax = 0.6,
      damageFlash = round2 (damageFlash p), respawnTimer = round2 (respawnTimer p),
      respawnTime = 3, invulnerable = (if invulnerable p > 0 then 1 else 0),
      jumpForce = 300, canJump = True, jumpCooldown = 0,
      moveSpeed = 200, airControl = 80,
      jumpGraceTimer = None, currentWeapon = None\<rparr>"
  by (simp add: playerFromSerialized_def serializePlayer_def applyState_def newPlayer_def)

lemma projectile_roundtrip_record:
  "projectileFromSerialized (serializeProjectile q)
   = \<lparr>x = js_round (x q), y = js_round (y q), radius = 3,
      vx = js_round (vx q), vy = js_round (vy q),
      active = True, lifetime = 3, age = round2 (age q), damage = 20,
      ownerId = ownerId q, projColor = projColor q\<rparr>"
  by (simp add: projectileFromSerialized_def serializeProjectile_def newProjectile_def)

lemma meteorite_roundtrip_record:
  "meteoriteFromSerialized rnd (serializeMeteorite m)
   = \<lparr>x = js_round (x m), y = js_round (y m), radius = radius m,
      vx = js_round (vx m), vy = js_round (vy m),
      active = True, lifetime = 10, age = 0, damage = 50,
      rotation = round2 (rotation m), rotationSpeed = (rnd 1 - 0.5) * 4,
      shape = shape m\<rparr>"
  by (simp add: meteoriteFromSerialized_def serializeMeteorite_def newMeteorite_def Let_def)

lemma pickup_roundtrip_record:
  "pickupFromSerialized rnd (serializePickup k)
   = \<lparr>x = js_round (x k), y = js_round (y k), radius = 15,
      pickupId = pickupId k, typeKey = typeKey k, pickupActive = True,
      time = rnd 0 * 10, baseX = js_round (x k), baseY = js_round (y k),
      pickupSurfaceAngle = 0\<rparr>"
  by (simp add: pickupFromSerialized_def serializePickup_def newPickup_def)

lemma wire_idem:
  "serializePlayer (playerFromSerialized (serializePlayer p)) = serializePlayer p"
  "serializeProjectile (projectileFromSerialized (serializeProjectile q)) = serializeProjectile q"
  "serializeMeteorite (meteoriteFromSerialized rnd (serializeMeteorite m)) = serializeMeteorite m"
  "serializePickup (pickupFromSerialized rnd (serializePickup k)) = serializePickup k"
  by (simp_all add: player_roundtrip_record projectile_roundtrip_record
      meteorite_roundtrip_record pickup_roundtrip_record)
     (simp_all add: serializePlayer_def serializeProjectile_def serializeMeteorite_def
       serializePickup_def)

lemma second_cycle_fresh_draws:
  "meteoriteFromSerialized rnd2 (serializeMeteorite (meteoriteFromSerialized rnd (serializeMeteorite m)))
     = (meteoriteFromSerialized rnd (serializeMeteorite m))\<lparr>rotationSpeed := (rnd2 1 - 0.5) * 4\<rparr>"
  "pickupFromSerialized rnd2 (serializePickup (pickupFromSerialized rnd (serializePickup k)))
     = (pickupFromSerialized rnd (serializePickup k))\<lparr>time := rnd2 0 * 10\<rparr>"
  by (simp_all add: wire_idem meteorite_roundtrip_record pickup_roundtrip_record)

text \<open>
  C6 (as amended). One cycle of \<open>serialize\<close> and \<open>fromSerialized\<close> gives back an entity
  all of whose fields are fixed by the original, the constructor and, for a meteorite
  and a pickup, the random draws of the constructor. For a player: the id, index, name,
  colour, grounded and facing flags, health, liveness, kills and deaths as they were;
  the position and velocity rounded to one decimal (within 0.05); the surface angle,
  move intent, damage flash and respawn timer rounded to two decimals (within 0.005);
  the invulnerability as 1 or 0; every other field at the constructor's value. For a
  projectile: the owner and colour as they were; the position and velocity rounded to
  the nearest integer (within 0.5), the age to two decimals; radius 3, damage 20,
  lifetime 3, active. For a meteorite: the radius and shape as they were; the position
  and velocity rounded to the nearest integer, the rotation to two decimals; age 0,
  lifetime 10, damage 50, active, and a freshly drawn rotation speed. For a pickup: the
  id and type as they were; the position rounded to the nearest integer, the base
  position equal to it; radius 15, active, surface angle 0, and a freshly drawn phase.
  The wire form of the result is the wire form of the original, for every kind and any
  draws. A second cycle gives back the result of the first exactly for a player and a
  projectile; for a meteorite and a pickup it gives it back in every field but the
  freshly drawn one (the rotation speed; the phase), which takes the new draw.
\<close>

theorem wire_roundtrip:
  "(playerId (playerFromSerialized (serializePlayer p)) = playerId p
   \<and> index (playerFromSerialized (serializePlayer p)) = index p
   \<and> name (playerFromSerialized (serializePlayer p)) = name p
   \<and> color (playerFromSerialized (serializePlayer p)) = color p
   \<and> isGrounded (playerFromSerialized (serializePlayer p)) = isGrounded p
   \<and> facingLeft (playerFromSerialized (serializePlayer p)) = facingLeft p
   \<and> health (playerFromSerialized (serializePlayer p)) = health p
   \<and> alive (playerFromSerialized (serializePlayer p)) = alive p
   \<and> kills (playerFromSerialized (serializePlayer p)) = kills p
   \<and> deaths (playerFromSerialized (serializePlayer p)) = deaths p
   \<and> invulnerable (playerFromSerialized (serializePlayer p)) = (if invulnerable p > 0 then 1 else 0)
   \<and> closeTo (1 / 20) (x (playerFromSerialized (serializePlayer p))) (x p)
   \<and> closeTo (1 / 20) (y (playerFromSerialized (serializePlayer p))) (y p)
   \<and> closeTo (1 / 20) (vx (playerFromSerialized (serializePlayer p))) (vx p)
   \<and> closeTo (1 / 20) (vy (playerFromSerialized (serializePlayer p))) (vy p)
   \<and> closeTo (1 / 200) (surfaceAngle (playerFromSerialized (serializePlayer p))) (surfaceAngle p)
   \<and> closeTo (1 / 200) (moveX (playerFromSerialized (serializePlayer p))) (moveX p)
   \<and> closeTo (1 / 200) (damageFlash (playerFromSerialized (serializePlayer p))) (damageFlash p)
   \<and> closeTo (1 / 200) (respawnTimer (playerFromSerialized (serializePlayer p))) (respawnTimer p)
   \<and> shotsFired (playerFromSerialized (serializePlayer p)) = 0
   \<and> shotsHit (playerFromSerialized (serializePlayer p)) = 0
   \<and> damageDealt (playerFromSerialized (serializePlayer p)) = 0
   \<and> currentWeapon (playerFromSerialized (serializePlayer p)) = None
   \<and> playerFromSerialized (serializePlayer p)
     = \<lparr>x = round1 (x p), y = round1 (y p), radius = 12,
        vx = round1 (vx p), vy = round1 (vy p),
        playerId = playerId p, index = index p, name = name p, color = color p,
        isGrounded = isGrounded p, groundedPlanetIndex = - 1,
        surfaceAngle = round2 (surfaceAngle p), moveX = round2 (moveX p),
        facingLeft = facingLeft p, aimAngle = 0,
        health = health p, maxHealth = 100, alive = alive p,
        kills = kills p, deaths = deaths p,
        shotsFired = 0, shotsHit = 0, damageDealt = 0,
        shootCooldown = 0, shootCooldownMax = 0.6,
        damageFlash = round2 (damageFlash p), respawnTimer = round2 (respawnTimer p),
        respawnTime = 3, invulnerable = (if invulnerable p > 0 then 1 else 0),
        jumpForce = 300, canJump = True, jumpCooldown = 0,
        moveSpeed = 200, airControl = 80,
        jumpGraceTimer = None, currentWeapon = None\<rparr>
   \<and> serializePlayer (playerFromSerialized (serializePlayer p)) = serializePlayer p
   \<and> playerFromSerialized (serializePlayer (playerFromSerialized (serializePlayer p)))
     = playerFromSerialized (serializePlayer p))
   \<and> (closeTo (1 / 2) (x (projectileFromSerialized (serializeProjectile q))) (x q)
   \<and> closeTo (1 / 2) (y (projectileFromSerialized (serializeProjectile q))) (y q)
   \<and> closeTo (1 / 2) (vx (projectileFromSerialized (serializeProjectile q))) (vx q)
   \<and> closeTo (1 / 2) (vy (projectileFromSerialized (serializeProjectile q))) (vy q)
   \<and> closeTo (1 / 200) (age (projectileFromSerialized (serializeProjectile q))) (age q)
   \<and> ownerId (projectileFromSerialized (serializeProjectile q)) = ownerId q
   \<and> projColor (projectileFromSerialized (serializeProjectile q)) = projColor q
   \<and> damage (projectileFromSerialized (serializeProjectile q)) = 20
   \<and> radius (projectileFromSerialized (serializeProjectile q)) = 3
   \<and> lifetime (projectileFromSerialized (serializeProjectile q)) = 3
   \<and> active (projectileFromSerialized (serializeProjectile q))
   \<and> projectileFromSerialized (serializeProjectile q)
     = \<lparr>x = js_round (x q), y = js_round (y q), radius = 3,
        vx = js_round (vx q), vy = js_round (vy q),
        active = True, lifetime = 3, age = round2 (age q), damage = 20,
        ownerId = ownerId q, projColor = projColor q\<rparr>
   \<and> serializeProjectile (projectileFromSerialized (serializeProjectile q)) = serializeProjectile q
   \<and> projectileFromSerialized (serializeProjectile (projectileFromSerialized (serializeProjectile q)))
     = projectileFromSerialized (serializeProjectile q))
   \<and> (closeTo (1 / 2) (x (meteoriteFromSerialized rnd (serializeMeteorite m))) (x m)
   \<and> closeTo (1 / 2) (y (meteoriteFromSerialized rnd (serializeMeteorite m))) (y m)
   \<and> closeTo (1 / 2) (vx (meteoriteFromSerialized rnd (serializeMeteorite m))) (vx m)
   \<and> closeTo (1 / 2) (vy (meteoriteFromSerialized rnd (serializeMeteorite m))) (vy m)
   \<and> closeTo (1 / 200) (rotation (meteoriteFromSerialized rnd (serializeMeteorite m))) (rotation m)
   \<and> radius (meteoriteFromSerialized rnd (serializeMeteorite m)) = radius m
   \<and> shape (meteoriteFromSerialized rnd (serializeMeteorite m)) = shape m
   \<and> meteoriteFromSerialized rnd (serializeMeteorite m)
     = \<lparr>x = js_round (x m), y = js_round (y m), radius = radius m,
        vx = js_round (vx m), vy = js_round (vy m),
        active = True, lifetime = 10, age = 0, damage = 50,
        rotation = round2 (rotation m), rotationSpeed = (rnd 1 - 0.5) * 4,
        shape = shape m\<rparr>
   \<and> serializeMeteorite (meteoriteFromSerialized rnd (serializeMeteorite m)) = serializeMeteorite m
   \<and> meteoriteFromSerialized rnd2 (serializeMeteorite (meteoriteFromSerialized rnd (serializeMeteorite m)))
     = (meteoriteFromSerialized rnd (serializeMeteorite m))\<lparr>rotationSpeed := (rnd2 1 - 0.5) * 4\<rparr>)
   \<and> (closeTo (1 / 2) (x (pickupFromSerialized rnd (serializePickup k))) (x k)
   \<and> closeTo (1 / 2) (y (pickupFromSerialized rnd (serializePickup k))) (y k)
   \<and> pickupId (pickupFromSerialized rnd (serializePickup k)) = pickupId k
   \<and> typeKey (pickupFromSerialized rnd (serializePickup k)) = typeKey k
   \<and> pickupFromSerialized rnd (serializePickup k)
     = \<lparr>x = js_round (x k), y = js_round (y k), radius = 15,
        pickupId = pickupId k, typeKey = typeKey k, pickupActive = True,
        time = rnd 0 * 10, baseX = js_round (x k), baseY = js_round (y k),
        pickupSurfaceAngle = 0\<rparr>
   \<and> serializePickup (pickupFromSerialized rnd (serializePickup k)) = serializePickup k
   \<and> pickupFromSerialized rnd2 (serializePickup (pickupFromSerialized rnd (serializePickup k)))
     = (pickupFromSerialized rnd (serializePickup k))\<lparr>time := rnd2 0 * 10\<rparr>)"
proof (intro conjI)
  show "playerFromSerialized (serializePlayer (playerFromSerialized (serializePlayer p)))
     = playerFromSerialized (serializePlayer p)" by (rule player_roundtrip_idem)
  show "playerFromSerialized (serializePlayer p)
     = \<lparr>x = round1 (x p), y = round1 (y p), radius = 12,
        vx = round1 (vx p), vy = round1 (vy p),
        playerId = playerId p, index = index p, name = name p, color = color p,
        isGrounded = isGrounded p, groundedPlanetIndex = - 1,
        surfaceAngle = round2 (surfaceAngle p), moveX = round2 (moveX p),
        facingLeft = facingLeft p, aimAngle = 0,
        health = health p, maxHealth = 100, alive = alive p,
        kills = kills p, deaths = deaths p,
        shotsFired = 0, shotsHit = 0, damageDealt = 0,
        shootCooldown = 0, shootCooldownMax = 0.6,
        damageFlash = round2 (damageFlash p), respawnTimer = round2 (respawnTimer p),
        respawnTime = 3, invulnerable = (if invulnerable p > 0 then 1 else 0),
        jumpForce = 300, canJump = True, jumpCooldown = 0,
        moveSpeed = 200, airControl = 80,
        jumpGraceTimer = None, currentWeapon = None\<rparr>" by (rule player_roundtrip_record)
  show "projectileFromSerialized (serializeProjectile q)
     = \<lparr>x = js_round (x q), y = js_round (y q), radius = 3,
        vx = js_round (vx q), vy = js_round (vy q),
        active = True, lifetime = 3, age = round2 (age q), damage = 20,
        ownerId = ownerId q, projColor = projColor q\<rparr>" by (rule projectile_roundtrip_record)
  show "meteoriteFromSerialized rnd (serializeMeteorite m)
     = \<lparr>x = js_round (x m), y = js_round (y m), radius = radius m,
        vx = js_round (vx m), vy = js_round (vy m),
        active = True, lifetime = 10, age = 0, damage = 50,
        rotation = round2 (rotation m), rotationSpeed = (rnd 1 - 0.5) * 4,
        shape = shape m\<rparr>" by (rule meteorite_roundtrip_record)
  show "pickupFromSerialized rnd (serializePickup k)
     = \<lparr>x = js_round (x k), y = js_round (y k), radius = 15,
        pickupId = pickupId k, typeKey = typeKey k, pickupActive = True,
        time = rnd 0 * 10, baseX = js_round (x k), baseY = js_round (y k),
        pickupSurfaceAngle = 0\<rparr>" by (rule pickup_roundtrip_record)
  show "meteoriteFromSerialized rnd2 (serializeMeteorite (meteoriteFromSerialized rnd (serializeMeteorite m)))
     = (meteoriteFromSerialized rnd (serializeMeteorite m))\<lparr>rotationSpeed := (rnd2 1 - 0.5) * 4\<rparr>"
    by (rule second_cycle_fresh_draws)
  show "pickupFromSerialized rnd2 (serializePickup (pickupFromSerialized rnd (serializePickup k)))
     = (pickupFromSerialized rnd (serializePickup k))\<lparr>time := rnd2 0 * 10\<rparr>"
    by (rule second_cycle_fresh_draws)
  show "serializePlayer (playerFromSerialized (serializePlayer p)) = serializePlayer p"
    "serializeProjectile (projectileFromSerialized (serializeProjectile q)) = serializeProjectile q"
    "serializeMeteorite (meteoriteFromSerialized rnd (serializeMeteorite m)) = serializeMeteorite m"
    "serializePickup (pickupFromSerialized rnd (serializePickup k)) = serializePickup k"
    by (rule wire_idem)+
qed (simp_all add: player_roundtrip_exact player_roundtrip_rounded player_roundtrip_defaults
      projectile_roundtrip projectile_roundtrip_defaults meteorite_roundtrip pickup_roundtrip
      closeTo_rounds)

text \<open>A player at x = 1.234 comes back at x = 1.2.\<close>

theorem wire_roundtrip_witness:
  "x (playerFromSerialized (serializePlayer ((newPlayer ''host'' 0)\<lparr>x := 1234 / 1000\<rparr>))) = 12 / 10
   \<and> closeTo (1 / 20) (12 / 10) (1234 / 1000)"
proof -
  let ?p = "(newPlayer ''host'' 0)\<lparr>x := 1234 / 1000\<rparr>"
  have e: "x (playerFromSerialized (serializePlayer ?p)) = 12 / 10"
    by (simp add: playerFromSerialized_def serializePlayer_def applyState_def round1_def
        js_round_def)
  have xp: "x ?p = 1234 / 1000" by simp
  have "closeTo (1 / 20) (x (playerFromSerialized (serializePlayer ?p))) (x ?p)"
    using wire_roundtrip[where p = ?p] by blast
  then have "closeTo (1 / 20) (12 / 10) (1234 / 1000)"
    unfolding e xp .
  with e show ?thesis by (rule conjI)
qed

text \<open>
  A shotgun pellet of damage 15 at x = 0.4 comes back with damage 20 at x = 0: the
  damage is not reproduced, and the position is off by more than one decimal allows. A
  player with three shots fired comes back with none, a meteorite of age 3 with age 0.
  A meteorite and a pickup that went through one cycle do not come back the same from
  a second cycle with other random draws.
\<close>

theorem roundtrip_counterexample:
  "damage (projectileFromSerialized (serializeProjectile
      ((newProjectile (2 / 5) 0 1200 0 ''host'' ''#00d4ff'')\<lparr>damage := 15\<rparr>)))
   \<noteq> damage ((newProjectile (2 / 5) 0 1200 0 ''host'' ''#00d4ff'')\<lparr>damage := 15\<rparr>)
   \<and> \<bar>x (projectileFromSerialized (serializeProjectile
      ((newProjectile (2 / 5) 0 1200 0 ''host'' ''#00d4ff'')\<lparr>damage := 15\<rparr>)))
      - x ((newProjectile (2 / 5) 0 1200 0 ''host'' ''#00d4ff'')\<lparr>damage := 15\<rparr>)\<bar> > 1 / 20
   \<and> shotsFired (playerFromSerialized (serializePlayer ((newPlayer ''host'' 0)\<lparr>shotsFired := 3\<rparr>)))
     \<noteq> shotsFired ((newPlayer ''host'' 0)\<lparr>shotsFired := 3\<rparr>)
   \<and> age (meteoriteFromSerialized (\<lambda>n. 0)
           (serializeMeteorite ((newMeteorite (\<lambda>n. 0) 800 0 (- 100) 0 15)\<lparr>age := 3\<rparr>)))
     \<noteq> age ((newMeteorite (\<lambda>n. 0) 800 0 (- 100) 0 15)\<lparr>age := 3\<rparr>)
   \<and> meteoriteFromSerialized (\<lambda>n. 1 / 2)
       (serializeMeteorite (meteoriteFromSerialized (\<lambda>n. 0)
          (serializeMeteorite (newMeteorite (\<lambda>n. 0) 800 0 (- 100) 0 15))))
     \<noteq> meteoriteFromSerialized (\<lambda>n. 0)
          (serializeMeteorite (newMeteorite (\<lambda>n. 0) 800 0 (- 100) 0 15))
   \<and> pickupFromSerialized (\<lambda>n. 1 / 2)
       (serializePickup (pickupFromSerialized (\<lambda>n. 0)
          (serializePickup (newPickup (\<lambda>n. 0) ''pickup_1'' 100 50 ''HEALTH''))))
     \<noteq> pickupFromSerialized (\<lambda>n. 0)
          (serializePickup (newPickup (\<lambda>n. 0) ''pickup_1'' 100 50 ''HEALTH''))"
proof -
  let ?q = "(newProjectile (2 / 5) 0 1200 0 ''host'' ''#00d4ff'')\<lparr>damage := 15\<rparr>"
  let ?m = "newMeteorite (\<lambda>n. 0) 800 0 (- 100) 0 15"
  let ?k = "newPickup (\<lambda>n. 0) ''pickup_1'' 100 50 ''HEALTH''"
  have a: "damage (projectileFromSerialized (serializeProjectile ?q)) \<noteq> damage ?q
     \<and> \<bar>x (projectileFromSerialized (serializeProjectile ?q)) - x ?q\<bar> > 1 / 20"
    by (simp add: projectileFromSerialized_def serializeProjectile_def newProjectile_def
        js_round_def)
  have b: "shotsFired (playerFromSerialized (serializePlayer ((newPlayer ''host'' 0)\<lparr>shotsFired := 3\<rparr>)))
     \<noteq> shotsFired ((newPlayer ''host'' 0)\<lparr>shotsFired := 3\<rparr>)"
    by (simp add: player_roundtrip_record)
  have c: "age (meteoriteFromSerialized (\<lambda>n. 0) (serializeMeteorite (?m\<lparr>age := 3\<rparr>)))
     \<noteq> age (?m\<lparr>age := 3\<rparr>)"
    by (simp add: meteorite_roundtrip_record)
  have "rotationSpeed (meteoriteFromSerialized (\<lambda>n. 1 / 2)
          (serializeMeteorite (meteoriteFromSerialized (\<lambda>n. 0) (serializeMeteorite ?m))))
        \<noteq> rotationSpeed (meteoriteFromSerialized (\<lambda>n. 0) (serializeMeteorite ?m))"
    by (simp add: meteorite_roundtrip_record)
  then have d: "meteoriteFromSerialized (\<lambda>n. 1 / 2)
          (serializeMeteorite (meteoriteFromSerialized (\<lambda>n. 0) (serializeMeteorite ?m)))
        \<noteq> meteoriteFromSerialized (\<lambda>n. 0) (serializeMeteorite ?m)"
    by (rule contrapos_nn) (erule arg_cong)
  have "time (pickupFromSerialized (\<lambda>n. 1 / 2)
          (serializePickup (pickupFromSerialized (\<lambda>n. 0) (serializePickup ?k))))
        \<noteq> time (pickupFromSerialized (\<lambda>n. 0) (serializePickup ?k))"
    by (simp add: pickup_roundtrip_record)
  then have e: "pickupFromSerialized (\<lambda>n. 1 / 2)
          (serializePickup (pickupFromSerialized (\<lambda>n. 0) (serializePickup ?k)))
        \<noteq> pickupFromSerialized (\<lambda>n. 0) (serializePickup ?k)"
    by (rule contrapos_nn) (erule arg_cong)
  show ?thesis using a b c d e by blast
qed

section \<open>Snapshot buffer and interpolation\<close>

lemma wrapDown_props:
  "wrapDown d \<le> pi \<and> (d \<le> pi \<longrightarrow> wrapDown d = d) \<and> (d > pi \<longrightarrow> wrapDown d > - pi)
   \<and> (\<exists>k::int. wrapDown d = d + of_int k * (2 * pi))"
proof (induction d rule: wrapDown.induct)
  case (1 d)
  show ?case
  proof (cases "d > pi")
    case True
    note ih = "1.IH"[OF True]
    have e: "wrapDown d = wrapDown (d - pi * 2)" using True by (subst wrapDown.simps) simp
    from ih obtain k :: int where k: "wrapDown (d - pi * 2) = d - pi * 2 + of_int k * (2 * pi)"
      by blast
    have "wrapDown d = d + of_int (k - 1) * (2 * pi)"
      unfolding e k by (simp add: algebra_simps)
    then have ex: "\<exists>k::int. wrapDown d = d + of_int k * (2 * pi)" by blast
    have lo: "wrapDown (d - pi * 2) > - pi"
    proof (cases "d - pi * 2 > pi")
      case True
      with ih show ?thesis by blast
    next
      case False
      with ih have "wrapDown (d - pi * 2) = d - pi * 2" by simp
      with \<open>d > pi\<close> show ?thesis by simp
    qed
    show ?thesis using True ih lo ex unfolding e by simp
  next
    case False
    then have e: "wrapDown d = d" by (subst wrapDown.simps) simp
    have "wrapDown d = d + of_int 0 * (2 * pi)" using e by simp
    then have "\<exists>k::int. wrapDown d = d + of_int k * (2 * pi)" by blast
    with False e show ?thesis by simp
  qed
qed

lemma wrapUp_props:
  "wrapUp d \<ge> - pi \<and> (d \<ge> - pi \<longrightarrow> wrapUp d = d) \<and> (d < - pi \<longrightarrow> wrapUp d < pi)
   \<and> (\<exists>k::int. wrapUp d = d + of_int k * (2 * pi))"
proof (induction d rule: wrapUp.induct)
  case (1 d)
  show ?case
  proof (cases "d < - pi")
    case True
    note ih = "1.IH"[OF True]
    have e: "wrapUp d = wrapUp (d + pi * 2)" using True by (subst wrapUp.simps) simp
    from ih obtain k :: int where k: "wrapUp (d + pi * 2) = d + pi * 2 + of_int k * (2 * pi)"
      by blast
    have "wrapUp d = d + of_int (k + 1) * (2 * pi)"
      unfolding e k by (simp add: algebra_simps)
    then have ex: "\<exists>k::int. wrapUp d = d + of_int k * (2 * pi)" by blast
    have hi: "wrapUp (d + pi * 2) < pi"
    proof (cases "d + pi * 2 < - pi")
      case True
      with ih show ?thesis by blast
    next
      case False
      with ih have "wrapUp (d + pi * 2) = d + pi * 2" by simp
      with \<open>d < - pi\<close> show ?thesis by simp
    qed
    show ?thesis using True ih hi ex unfolding e by simp
  next
    case False
    then have e: "wrapUp d = d" by (subst wrapUp.simps) simp
    have "wrapUp d = d + of_int 0 * (2 * pi)" using e by simp
    then have "\<exists>k::int. wrapUp d = d + of_int k * (2 * pi)" by blast
    with False e show ?thesis by simp
  qed
qed

lemma shortest_turn:
  "\<bar>wrapUp (wrapDown d)\<bar> \<le> pi \<and> (\<exists>k::int. wrapUp (wrapDown d) = d + of_int k * (2 * pi))"
proof -
  let ?w = "wrapDown d"
  have wd: "?w \<le> pi" "d \<le> pi \<longrightarrow> ?w = d" "d > pi \<longrightarrow> ?w > - pi"
    using wrapDown_props[of d] by blast+
  obtain k1 :: int where k1: "?w = d + of_int k1 * (2 * pi)" using wrapDown_props[of d] by blast
  have wu: "wrapUp ?w \<ge> - pi" "?w \<ge> - pi \<longrightarrow> wrapUp ?w = ?w" "?w < - pi \<longrightarrow> wrapUp ?w < pi"
    using wrapUp_props[of ?w] by blast+
  obtain k2 :: int where k2: "wrapUp ?w = ?w + of_int k2 * (2 * pi)"
    using wrapUp_props[of ?w] by blast
  have "wrapUp ?w \<le> pi"
  proof (cases "?w \<ge> - pi")
    case True
    with wu wd show ?thesis by simp
  next
    case False
    with wu show ?thesis by simp
  qed
  then have b: "\<bar>wrapUp ?w\<bar> \<le> pi" using wu(1) by (simp add: abs_le_iff)
  have "wrapUp ?w = d + of_int (k1 + k2) * (2 * pi)"
    unfolding k2 by (subst k1) (simp add: algebra_simps)
  then show ?thesis using b by blast
qed


lemma findBracket_None:
  "findBracket buf rt = None
   \<longleftrightarrow> (\<forall>i. Suc i < length buf \<longrightarrow> \<not> brackets (buf ! i) (buf ! Suc i) rt)"
proof (induction buf rt rule: findBracket.induct)
  case (1 a b rest rt)
  show ?case
  proof (cases "brackets a b rt")
    case True
    then have "findBracket (a # b # rest) rt \<noteq> None" by (simp add: brackets_def)
    moreover have "\<not> (\<forall>i. Suc i < length (a # b # rest)
                      \<longrightarrow> \<not> brackets ((a # b # rest) ! i) ((a # b # rest) ! Suc i) rt)"
      using True by (auto intro: exI[of _ 0])
    ultimately show ?thesis by blast
  next
    case False
    then have f: "findBracket (a # b # rest) rt = findBracket (b # rest) rt"
      by (auto simp: brackets_def)
    have ih: "findBracket (b # rest) rt = None
      \<longleftrightarrow> (\<forall>i. Suc i < length (b # rest) \<longrightarrow> \<not> brackets ((b # rest) ! i) ((b # rest) ! Suc i) rt)"
      using "1.IH" False by (simp add: brackets_def)
    have "(\<forall>i. Suc i < length (a # b # rest)
              \<longrightarrow> \<not> brackets ((a # b # rest) ! i) ((a # b # rest) ! Suc i) rt)
          \<longleftrightarrow> (\<forall>i. Suc i < length (b # rest)
              \<longrightarrow> \<not> brackets ((b # rest) ! i) ((b # rest) ! Suc i) rt)"
      (is "?L \<longleftrightarrow> ?R")
    proof
      assume l: ?L
      show ?R
      proof (intro allI impI)
        fix i assume "Suc i < length (b # rest)"
        then have "Suc (Suc i) < length (a # b # rest)" by simp
        with l have "\<not> brackets ((a # b # rest) ! Suc i) ((a # b # rest) ! Suc (Suc i)) rt"
          by blast
        then show "\<not> brackets ((b # rest) ! i) ((b # rest) ! Suc i) rt" by simp
      qed
    next
      assume r: ?R
      show ?L
      proof (intro allI impI)
        fix i assume s: "Suc i < length (a # b # rest)"
        show "\<not> brackets ((a # b # rest) ! i) ((a # b # rest) ! Suc i) rt"
        proof (cases i)
          case 0
          with False show ?thesis by simp
        next
          case (Suc j)
          with s have "Suc j < length (b # rest)" by simp
          with r have "\<not> brackets ((b # rest) ! j) ((b # rest) ! Suc j) rt" by blast
          with Suc show ?thesis by simp
        qed
      qed
    qed
    with f ih show ?thesis by simp
  qed
qed simp_all

lemma findBracket_first:
  assumes "Suc i < length buf" "brackets (buf ! i) (buf ! Suc i) rt"
    "\<forall>j<i. \<not> brackets (buf ! j) (buf ! Suc j) rt"
  shows "findBracket buf rt = Some (buf ! i, buf ! Suc i)"
  using assms
proof (induction buf rt arbitrary: i rule: findBracket.induct)
  case (1 a b rest rt)
  show ?case
  proof (cases i)
    case 0
    with "1.prems" show ?thesis by (simp add: brackets_def)
  next
    case (Suc k)
    with "1.prems"(3) have nb: "\<not> brackets a b rt" by fastforce
    have p1: "Suc k < length (b # rest)" using "1.prems"(1) Suc by simp
    have p2: "brackets ((b # rest) ! k) ((b # rest) ! Suc k) rt" using "1.prems"(2) Suc by simp
    have p3: "\<forall>j<k. \<not> brackets ((b # rest) ! j) ((b # rest) ! Suc j) rt"
    proof (intro allI impI)
      fix j assume "j < k"
      then have "Suc j < i" using Suc by simp
      with "1.prems"(3) have "\<not> brackets ((a # b # rest) ! Suc j) ((a # b # rest) ! Suc (Suc j)) rt"
        by blast
      then show "\<not> brackets ((b # rest) ! j) ((b # rest) ! Suc j) rt" by simp
    qed
    have "findBracket (b # rest) rt = Some ((b # rest) ! k, (b # rest) ! Suc k)"
      using "1.IH"[OF _ p1 p2 p3] nb by (simp add: brackets_def)
    with nb Suc show ?thesis by (auto simp: brackets_def)
  qed
qed simp_all

lemma fraction_in_unit:
  assumes "brackets a b rt"
  shows "0 \<le> fraction a b rt \<and> fraction a b rt \<le> 1 \<and> clamp01 (fraction a b rt) = fraction a b rt"
proof -
  have "0 \<le> fraction a b rt \<and> fraction a b rt \<le> 1"
    using assms by (auto simp: fraction_def brackets_def field_simps)
  then show ?thesis by (simp add: clamp01_def)
qed


lemma getInterpolatedState_short:
  "length buf < 2 \<Longrightarrow>
   getInterpolatedState buf now = (if buf = [] then None else Some (state (last buf)))"
  by (simp add: getInterpolatedState_def)

lemma getInterpolatedState_no_bracket:
  assumes "2 \<le> length buf"
    and "\<forall>i. Suc i < length buf \<longrightarrow> \<not> brackets (buf ! i) (buf ! Suc i) (now - interpDelay)"
  shows "getInterpolatedState buf now = Some (state (last buf))"
proof -
  have "findBracket buf (now - interpDelay) = None"
    using assms(2) by (simp add: findBracket_None)
  with assms(1) show ?thesis by (simp add: getInterpolatedState_def Let_def)
qed

lemma getInterpolatedState_bracket:
  assumes "Suc i < length buf"
    and "brackets (buf ! i) (buf ! Suc i) (now - interpDelay)"
    and "\<forall>j<i. \<not> brackets (buf ! j) (buf ! Suc j) (now - interpDelay)"
  shows "getInterpolatedState buf now
         = Some ((state (buf ! Suc i))
             \<lparr>st_players :=
                map (interpolatePlayer (st_players (state (buf ! i)))
                       (fraction (buf ! i) (buf ! Suc i) (now - interpDelay)))
                    (st_players (state (buf ! Suc i)))\<rparr>)"
proof -
  have f: "findBracket buf (now - interpDelay) = Some (buf ! i, buf ! Suc i)"
    by (rule findBracket_first[OF assms])
  have c: "max 0 (min 1 (fraction (buf ! i) (buf ! Suc i) (now - interpDelay)))
           = fraction (buf ! i) (buf ! Suc i) (now - interpDelay)"
    using fraction_in_unit[OF assms(2)] by (simp add: clamp01_def)
  have l: "\<not> length buf < 2" using assms(1) by simp
  have g: "getInterpolatedState buf now
         = Some ((state (buf ! Suc i))
             \<lparr>st_players :=
                map (interpolatePlayer (st_players (state (buf ! i)))
                       (max 0 (min 1 (fraction (buf ! i) (buf ! Suc i) (now - interpDelay)))))
                    (st_players (state (buf ! Suc i)))\<rparr>)"
    unfolding getInterpolatedState_def fraction_def using l
    by (simp add: f Let_def)
  show ?thesis unfolding g c by (rule refl)
qed

lemma interpolatePlayer_cases:
  "(List.find (\<lambda>q. pl_id q = pl_id pd) fps = Some fp
     \<longrightarrow> interpolatePlayer fps t pd
         = pd\<lparr>x := x fp + (x pd - x fp) * t,
              y := y fp + (y pd - y fp) * t,
              pl_sa := pl_sa fp + wrapUp (wrapDown (pl_sa pd - pl_sa fp)) * t\<rparr>)
   \<and> (List.find (\<lambda>q. pl_id q = pl_id pd) fps = None \<longrightarrow> interpolatePlayer fps t pd = pd)"
  by (simp add: interpolatePlayer_def lerp_def lerpAngle_def)

lemma pushState_props:
  "pushState buf st now
     = (if length buf \<ge> 10 then tl buf @ [\<lparr>state = st, timestamp = now\<rparr>]
        else buf @ [\<lparr>state = st, timestamp = now\<rparr>])
   \<and> last (pushState buf st now) = \<lparr>state = st, timestamp = now\<rparr>
   \<and> (length buf \<le> 10 \<longrightarrow> length (pushState buf st now) \<le> 10)"
proof -
  have e: "pushState buf st now
     = (if length buf \<ge> 10 then tl buf @ [\<lparr>state = st, timestamp = now\<rparr>]
        else buf @ [\<lparr>state = st, timestamp = now\<rparr>])"
    by (cases buf) (auto simp: pushState_def Let_def)
  show ?thesis unfolding e by auto
qed

text \<open>
  C8. With fewer than two snapshots buffered, \<open>getInterpolatedState\<close> returns the newest
  one as it is (nothing for an empty buffer); with two or more and no adjacent pair that
  brackets the render time, \<open>now\<close> less the interpolation delay, it returns the newest
  one as it is. Otherwise it takes the first bracketing pair and returns the newer
  state of the pair with its players interpolated at the fractional position of the
  render time in the pair's interval, which lies in [0, 1]: a player with a counterpart
  of the same id in the older state gets its position moved linearly and its surface
  angle moved along the turn between the two angles that is at most a half circle and
  differs from their difference by whole circles; a player without counterpart, and
  everything else in the state, is as in the newer snapshot. Pushing a snapshot puts it
  last, drops the oldest when ten are already buffered, and keeps a buffer of at most
  ten at most ten long.
\<close>

theorem interpolated_state:
  "(length buf < 2
      \<longrightarrow> getInterpolatedState buf now = (if buf = [] then None else Some (state (last buf))))
   \<and> (2 \<le> length buf
       \<and> (\<forall>j. Suc j < length buf \<longrightarrow> \<not> brackets (buf ! j) (buf ! Suc j) (now - interpDelay))
      \<longrightarrow> getInterpolatedState buf now = Some (state (last buf)))
   \<and> (Suc i < length buf
       \<and> brackets (buf ! i) (buf ! Suc i) (now - interpDelay)
       \<and> (\<forall>j<i. \<not> brackets (buf ! j) (buf ! Suc j) (now - interpDelay))
      \<longrightarrow> getInterpolatedState buf now
            = Some ((state (buf ! Suc i))
                \<lparr>st_players :=
                   map (interpolatePlayer (st_players (state (buf ! i)))
                          (fraction (buf ! i) (buf ! Suc i) (now - interpDelay)))
                       (st_players (state (buf ! Suc i)))\<rparr>)
          \<and> 0 \<le> fraction (buf ! i) (buf ! Suc i) (now - interpDelay)
          \<and> fraction (buf ! i) (buf ! Suc i) (now - interpDelay) \<le> 1)
   \<and> (List.find (\<lambda>q. pl_id q = pl_id pd) fps = Some fp
      \<longrightarrow> interpolatePlayer fps t pd
          = pd\<lparr>x := x fp + (x pd - x fp) * t,
               y := y fp + (y pd - y fp) * t,
               pl_sa := pl_sa fp + wrapUp (wrapDown (pl_sa pd - pl_sa fp)) * t\<rparr>)
   \<and> (List.find (\<lambda>q. pl_id q = pl_id pd) fps = None \<longrightarrow> interpolatePlayer fps t pd = pd)
   \<and> \<bar>wrapUp (wrapDown d)\<bar> \<le> pi
   \<and> (\<exists>k::int. wrapUp (wrapDown d) = d + of_int k * (2 * pi))
   \<and> pushState buf st now
       = (if length buf \<ge> 10 then tl buf @ [\<lparr>state = st, timestamp = now\<rparr>]
          else buf @ [\<lparr>state = st, timestamp = now\<rparr>])
   \<and> last (pushState buf st now) = \<lparr>state = st, timestamp = now\<rparr>
   \<and> (length buf \<le> 10 \<longrightarrow> length (pushState buf st now) \<le> 10)"
proof -
  have a: "length buf < 2
      \<longrightarrow> getInterpolatedState buf now = (if buf = [] then None else Some (state (last buf)))"
    using getInterpolatedState_short by blast
  have b: "2 \<le> length buf
       \<and> (\<forall>j. Suc j < length buf \<longrightarrow> \<not> brackets (buf ! j) (buf ! Suc j) (now - interpDelay))
      \<longrightarrow> getInterpolatedState buf now = Some (state (last buf))"
    using getInterpolatedState_no_bracket by blast
  have c: "Suc i < length buf
       \<and> brackets (buf ! i) (buf ! Suc i) (now - interpDelay)
       \<and> (\<forall>j<i. \<not> brackets (buf ! j) (buf ! Suc j) (now - interpDelay))
      \<longrightarrow> getInterpolatedState buf now
            = Some ((state (buf ! Suc i))
                \<lparr>st_players :=
                   map (interpolatePlayer (st_players (state (buf ! i)))
                          (fraction (buf ! i) (buf ! Suc i) (now - interpDelay)))
                       (st_players (state (buf ! Suc i)))\<rparr>)
          \<and> 0 \<le> fraction (buf ! i) (buf ! Suc i) (now - interpDelay)
          \<and> fraction (buf ! i) (buf ! Suc i) (now - interpDelay) \<le> 1"
    using getInterpolatedState_bracket[of i buf now] fraction_in_unit by blast
  show ?thesis
    using a b c interpolatePlayer_cases[of pd fps fp t] shortest_turn[of d]
      pushState_props[of buf st now]
    by blast
qed


text \<open>
  Snapshots received at 0 ms and 100 ms with a player at x = 0 and x = 10, rendered
  at 130 ms with the delay of 100 ms: the fraction is 0.3 and the player is drawn at
  x = 3. With only the first snapshot buffered it is returned as it is.
\<close>

theorem interpolated_state_witness:
  "map x (st_players (the (getInterpolatedState
      [\<lparr>state = \<lparr>st_players = [serializePlayer (newPlayer ''p2'' 1)], st_projectiles = [],
                  st_meteorites = [], st_timer = 180, st_time = 0\<rparr>, timestamp = 0\<rparr>,
       \<lparr>state = \<lparr>st_players = [serializePlayer ((newPlayer ''p2'' 1)\<lparr>x := 10\<rparr>)],
                  st_projectiles = [], st_meteorites = [], st_timer = 180, st_time = 0\<rparr>,
        timestamp = 100\<rparr>] 130))) = [3]
   \<and> getInterpolatedState
      [\<lparr>state = \<lparr>st_players = [serializePlayer (newPlayer ''p2'' 1)], st_projectiles = [],
                  st_meteorites = [], st_timer = 180, st_time = 0\<rparr>, timestamp = 0\<rparr>] 130
     = Some \<lparr>st_players = [serializePlayer (newPlayer ''p2'' 1)], st_projectiles = [],
             st_meteorites = [], st_timer = 180, st_time = 0\<rparr>"
proof -
  let ?d0 = "serializePlayer (newPlayer ''p2'' 1)"
  let ?d1 = "serializePlayer ((newPlayer ''p2'' 1)\<lparr>x := 10\<rparr>)"
  let ?s0 = "\<lparr>st_players = [?d0], st_projectiles = [], st_meteorites = [],
             st_timer = 180, st_time = 0\<rparr>"
  let ?s1 = "\<lparr>st_players = [?d1], st_projectiles = [], st_meteorites = [],
             st_timer = 180, st_time = 0\<rparr>"
  let ?b = "[\<lparr>state = ?s0, timestamp = 0\<rparr>, \<lparr>state = ?s1, timestamp = 100\<rparr>]"
  have br: "Suc 0 < length ?b \<and> brackets (?b ! 0) (?b ! Suc 0) (130 - interpDelay)
            \<and> (\<forall>j<0. \<not> brackets (?b ! j) (?b ! Suc j) (130 - interpDelay))"
    by (simp add: brackets_def interpDelay_def)
  have fr: "fraction (?b ! 0) (?b ! Suc 0) (130 - interpDelay) = 3 / 10"
    by (simp add: fraction_def interpDelay_def)
  have ids: "List.find (\<lambda>q. pl_id q = pl_id ?d1) [?d0] = Some ?d0"
    by (simp add: serializePlayer_def)
  have xs: "x ?d0 = 0" "x ?d1 = 10"
    by (simp_all add: serializePlayer_def round1_def js_round_def newPlayer_def)
  note t2 = interpolated_state[where buf = ?b and i = 0 and now = 130 and pd = ?d1
      and fps = "[?d0]" and fp = ?d0 and t = "3 / 10"]
  have "getInterpolatedState ?b 130
          = Some ((state (?b ! Suc 0))
                \<lparr>st_players :=
                   map (interpolatePlayer (st_players (state (?b ! 0)))
                          (fraction (?b ! 0) (?b ! Suc 0) (130 - interpDelay)))
                       (st_players (state (?b ! Suc 0)))\<rparr>)"
    using t2 br by blast
  then have g: "getInterpolatedState ?b 130
           = Some (?s1\<lparr>st_players := map (interpolatePlayer [?d0] (3 / 10)) [?d1]\<rparr>)"
    unfolding fr by simp
  have "interpolatePlayer [?d0] (3 / 10) ?d1
          = ?d1\<lparr>x := x ?d0 + (x ?d1 - x ?d0) * (3 / 10),
               y := y ?d0 + (y ?d1 - y ?d0) * (3 / 10),
               pl_sa := pl_sa ?d0 + wrapUp (wrapDown (pl_sa ?d1 - pl_sa ?d0)) * (3 / 10)\<rparr>"
    using t2 ids by blast
  then have "x (interpolatePlayer [?d0] (3 / 10) ?d1) = x ?d0 + (x ?d1 - x ?d0) * (3 / 10)"
    by simp
  then have ip: "x (interpolatePlayer [?d0] (3 / 10) ?d1) = 3"
    unfolding xs by simp
  have one: "map x (st_players (the (getInterpolatedState ?b 130))) = [3]"
    by (simp add: g ip)
  have two: "getInterpolatedState [\<lparr>state = ?s0, timestamp = 0\<rparr>] 130 = Some ?s0"
    using interpolated_state[where buf = "[\<lparr>state = ?s0, timestamp = 0\<rparr>]" and now = 130]
    by simp
  show ?thesis using one two by (rule conjI)
qed

section \<open>Player.takeDamage and Player.canShoot on a dead or invulnerable player\<close>

text \<open>
  C10. \<open>takeDamage\<close> on a player that is dead or invulnerable reports no death and
  returns the player with every field as it was, for any amount; and a dead player
  cannot shoot.
\<close>

theorem takeDamage_dead_or_invulnerable:
  assumes "\<not> alive p \<or> invulnerable p > 0"
  shows "takeDamage amount p = (False, p) \<and> (\<not> alive p \<longrightarrow> \<not> canShoot p)"
  using assms by (auto simp: takeDamage_def canShoot_def)

theorem takeDamage_dead_or_invulnerable_witness:
  "takeDamage 9999 ((newPlayer ''host'' 0)\<lparr>alive := False, health := 0\<rparr>)
     = (False, (newPlayer ''host'' 0)\<lparr>alive := False, health := 0\<rparr>)
   \<and> \<not> canShoot ((newPlayer ''host'' 0)\<lparr>alive := False, health := 0\<rparr>)
   \<and> takeDamage 50 ((newPlayer ''a'' 1)\<lparr>invulnerable := 2\<rparr>)
     = (False, (newPlayer ''a'' 1)\<lparr>invulnerable := 2\<rparr>)"
  using takeDamage_dead_or_invulnerable
          [of "(newPlayer ''host'' 0)\<lparr>alive := False, health := 0\<rparr>" 9999]
        takeDamage_dead_or_invulnerable
          [of "(newPlayer ''a'' 1)\<lparr>invulnerable := 2\<rparr>" 50]
  by (simp add: newPlayer_def)

end
